theory Spec2Isabelle
  imports Complex_Main "HOL-Library.Word"
begin

section \<open>Strings and the host's string functions\<close>

text \<open>
  A JavaScript string is modelled as a \<open>string\<close>: a list of 8-bit characters, read as
  the code units U+0000 to U+00FF. The functions of this section are the host's
  (\<open>String.prototype.toLowerCase\<close>, \<open>trim\<close>, \<open>includes\<close>, \<open>split\<close>, \<open>parseFloat\<close>,
  regular expressions), written out for that character range.
\<close>

definition code :: "char \<Rightarrow> nat" where
  "code c = of_char c"

text \<open>The class \<open>\s\<close> of a regular expression, which is also what \<open>trim\<close> strips:
  tab, line feed, vertical tab, form feed, carriage return, space, no-break space.\<close>

definition is_space :: "char \<Rightarrow> bool" where
  "is_space c = (code c \<in> {9, 10, 11, 12, 13, 32, 160})"

definition is_digit :: "char \<Rightarrow> bool" where
  "is_digit c = (48 \<le> code c \<and> code c \<le> 57)"

definition is_upper :: "char \<Rightarrow> bool" where
  "is_upper c = (65 \<le> code c \<and> code c \<le> 90)"

definition is_lower :: "char \<Rightarrow> bool" where
  "is_lower c = (97 \<le> code c \<and> code c \<le> 122)"

text \<open>The characters that \<open>toLowerCase\<close> changes in this range: the letters A to Z and
  the accented capitals U+00C0 to U+00DE, the multiplication sign U+00D7 apart. Each
  becomes the character 32 code points further.\<close>

definition has_lower :: "char \<Rightarrow> bool" where
  "has_lower c = (is_upper c \<or> (192 \<le> code c \<and> code c \<le> 222 \<and> code c \<noteq> 215))"

definition lower_char :: "char \<Rightarrow> char" where
  "lower_char c = (if has_lower c then char_of (code c + 32) else c)"

definition toLowerCase :: "string \<Rightarrow> string" where
  "toLowerCase s = map lower_char s"

definition trim :: "string \<Rightarrow> string" where
  "trim s = rev (dropWhile is_space (rev (dropWhile is_space s)))"

text \<open>\<open>s.includes(t)\<close>: \<open>t\<close> occurs in \<open>s\<close> as a contiguous substring.\<close>

fun str_includes :: "string \<Rightarrow> string \<Rightarrow> bool" where
  "str_includes [] t = (t = [])"
| "str_includes (c # cs) t = (take (length t) (c # cs) = t \<or> str_includes cs t)"

text \<open>\<open>s.split(' ')\<close>: the pieces of \<open>s\<close> between the occurrences of the separator
  character; the empty string gives one empty piece.\<close>

fun split_on :: "char \<Rightarrow> string \<Rightarrow> string list" where
  "split_on sep [] = [[]]"
| "split_on sep (c # cs) =
     (if c = sep then [] # split_on sep cs
      else (case split_on sep cs of
              [] \<Rightarrow> [[c]]
            | w # ws \<Rightarrow> (c # w) # ws))"

subsection \<open>Regular expressions\<close>

text \<open>
  The regular expressions of the source use character classes, concatenation, the greedy
  option \<open>r?\<close> and greedy repetition of a character class (\<open>+\<close>, \<open>{n}\<close>, \<open>{n,}\<close>).
  \<open>rmatch r s\<close> lists, in the order in which a backtracking matcher tries them, the
  rests of \<open>s\<close> after a match of \<open>r\<close> at the start of \<open>s\<close>: a greedy construct tries its
  longest alternative first.
\<close>

datatype regex =
    Chr "char \<Rightarrow> bool"
  | Cat regex regex
  | Opt regex
  | Rep "char \<Rightarrow> bool" nat "nat option"

fun rmatch :: "regex \<Rightarrow> string \<Rightarrow> string list" where
  "rmatch (Chr P) s = (case s of [] \<Rightarrow> [] | c # cs \<Rightarrow> if P c then [cs] else [])"
| "rmatch (Cat r1 r2) s = concat (map (rmatch r2) (rmatch r1 s))"
| "rmatch (Opt r) s = rmatch r s @ [s]"
| "rmatch (Rep P lo hi) s =
     (let n = length (takeWhile P s);
          top = (case hi of None \<Rightarrow> n | Some h \<Rightarrow> min n h)
      in map (\<lambda>k. drop k s) (rev [lo ..< Suc top]))"

text \<open>\<open>/^r$/.test(s)\<close>: some way of matching \<open>r\<close> at the start of \<open>s\<close> consumes all of it.\<close>

definition test_anchored :: "regex \<Rightarrow> string \<Rightarrow> bool" where
  "test_anchored r s = ([] \<in> set (rmatch r s))"

text \<open>\<open>s.match(/r/g)\<close>: the successive leftmost matches, each search resuming where the
  previous match ended (one character further after an empty match). The host returns
  \<open>null\<close> for no match, which every caller in the source reads as the empty list or
  tests for. At a position where \<open>r\<close> matches, \<open>rest\<close> is what the first way of
  matching leaves: the match is the text before it.\<close>

fun match_g :: "regex \<Rightarrow> string \<Rightarrow> string list" where
  "match_g r [] = (if rmatch r [] = [] then [] else [[]])"
| "match_g r (c # cs) =
     (case rmatch r (c # cs) of
        [] \<Rightarrow> match_g r cs
      | rest # _ \<Rightarrow>
          (if length rest \<ge> Suc (length cs) then [] # match_g r cs
           else take (Suc (length cs) - length rest) (c # cs)
                  # match_g r (drop (length cs - length rest) cs)))"

text \<open>A character given by a list of alternatives, and the classes of the source.\<close>

definition one_of :: "string \<Rightarrow> char \<Rightarrow> bool" where
  "one_of cs c = (c \<in> set cs)"

definition is_alpha :: "char \<Rightarrow> bool" where
  "is_alpha c = (is_lower c \<or> is_upper c)"

definition is_alnum :: "char \<Rightarrow> bool" where
  "is_alnum c = (is_alpha c \<or> is_digit c)"

definition lit :: "char \<Rightarrow> regex" where
  "lit c = Chr (\<lambda>x. x = c)"

subsection \<open>Numbers\<close>

text \<open>
  A JavaScript number is modelled by its exact value, a rational, or one of the special
  values; the rounding of a decimal to the nearest double is not modelled.
\<close>

datatype number = NaN | Infinity bool | Num rat

definition digit_val :: "char \<Rightarrow> nat" where
  "digit_val c = code c - 48"

definition digits_val :: "string \<Rightarrow> nat" where
  "digits_val ds = foldl (\<lambda>a c. 10 * a + digit_val c) 0 ds"

text \<open>
  \<open>parseFloat\<close>: leading white space is skipped, then the longest prefix that is a decimal
  literal (sign, \<open>Infinity\<close>, digits with an optional fraction, or a fraction alone, and
  an optional exponent) is read; with no such prefix the result is \<open>NaN\<close>.
\<close>

definition parse_sign :: "string \<Rightarrow> bool \<times> string" where
  "parse_sign s =
     (case s of
        c # cs \<Rightarrow> if c = CHR ''-'' then (True, cs)
                  else if c = CHR ''+'' then (False, cs) else (False, s)
      | [] \<Rightarrow> (False, s))"

definition parse_exponent :: "string \<Rightarrow> int" where
  "parse_exponent s =
     (case s of
        c # cs \<Rightarrow>
          if c = CHR ''e'' \<or> c = CHR ''E'' then
            (let (neg, ds) = parse_sign cs; e = takeWhile is_digit ds
             in if e = [] then 0
                else if neg then - int (digits_val e) else int (digits_val e))
          else 0
      | [] \<Rightarrow> 0)"

definition scale10 :: "rat \<Rightarrow> int \<Rightarrow> rat" where
  "scale10 x e = (if e < 0 then x / 10 ^ nat (- e) else x * 10 ^ nat e)"

definition parseFloat :: "string \<Rightarrow> number" where
  "parseFloat s =
     (let (neg, s1) = parse_sign (dropWhile is_space s) in
      if take 8 s1 = ''Infinity'' then Infinity neg
      else
        let ip = takeWhile is_digit s1;
            r = drop (length ip) s1;
            fp = (case r of c # cs \<Rightarrow> if c = CHR ''.'' then takeWhile is_digit cs else []
                  | [] \<Rightarrow> []);
            r' = (case r of c # cs \<Rightarrow> if c = CHR ''.'' then drop (length fp) cs else r
                  | [] \<Rightarrow> [])
        in if ip = [] \<and> fp = [] then NaN
           else
             let v = scale10 (of_nat (digits_val ip)
                               + of_nat (digits_val fp) / 10 ^ length fp)
                             (parse_exponent r')
             in Num (if neg then - v else v))"

section \<open>The data model (src/types/index.ts)\<close>

text \<open>A \<open>Date\<close> is modelled by its time value, the milliseconds since the epoch.\<close>

type_synonym date = int

datatype plan = Free | Pro | Enterprise

record user =
  user_id :: string
  user_email :: string
  user_name :: string
  user_avatar :: "string option"
  user_plan :: plan
  user_createdAt :: date
  user_updatedAt :: date

text \<open>The credential record that \<open>signUp\<close> stores apart from the user.\<close>

record credential =
  cred_userId :: string
  cred_email :: string
  cred_passwordHash :: string
  cred_createdAt :: date

datatype sentiment = Positive | Neutral | Negative

record contentSummary =
  sum_id :: string
  sum_url :: string
  sum_title :: string
  sum_summary :: string
  sum_keyPoints :: "string list"
  sum_sentiment :: "sentiment option"
  sum_readingTime :: "number option"
  sum_createdAt :: date

record lead =
  lead_id :: string
  lead_name :: "string option"
  lead_email :: "string option"
  lead_phone :: "string option"
  lead_company :: "string option"
  lead_position :: "string option"
  lead_source :: string
  lead_verified :: bool
  lead_extractedAt :: date

record pricePoint =
  pp_price :: number
  pp_timestamp :: date

record priceMonitoringItem =
  pm_id :: string
  pm_url :: string
  pm_productName :: string
  pm_currentPrice :: number
  pm_targetPrice :: "number option"
  pm_currency :: string
  pm_selector :: string
  pm_lastChecked :: date
  pm_priceHistory :: "pricePoint list"
  pm_alertsEnabled :: bool

text \<open>The \<open>details\<close> of an activity are a \<open>Record<string, any>\<close>: here an association
  list from keys to strings or numbers, which is all the dispatcher ever puts there.\<close>

datatype detail = DStr string | DNum int

type_synonym details = "(string \<times> detail) list"

record userActivity =
  act_id :: string
  act_userId :: string
  act_action :: string
  act_details :: details
  act_timestamp :: date

section \<open>The session store (src/services/storageService.ts)\<close>

text \<open>
  \<open>chrome.storage.local\<close> holds the collections under their keys and the three session
  keys; a key that is absent reads as the empty list (\<open>result[key] || []\<close>) or as
  \<open>None\<close>. The storage calls themselves are taken to succeed.
\<close>

record storage =
  users :: "user list"
  userCredentials :: "credential list"
  contentSummaries :: "contentSummary list"
  leads :: "lead list"
  priceMonitors :: "priceMonitoringItem list"
  userActivities :: "userActivity list"
  stored_currentUser :: "user option"
  authToken :: "string option"
  tokenExpiry :: "int option"

text \<open>The service object: its two private fields, and the storage behind it.\<close>

record service =
  currentUser :: "user option"
  isInitialized :: bool
  local :: storage

text \<open>
  What one call reads from the host besides the storage: the clock (\<open>Date.now()\<close>, taken
  not to advance within one call), the results of the successive calls of \<open>generateId\<close>
  (\<open>Date.now().toString(36) + Math.random().toString(36).substr(2)\<close>), and the
  base-36 rendering of \<open>Math.random()\<close> that goes into a token.
\<close>

record env =
  now :: int
  ids :: "nat \<Rightarrow> string"
  random36 :: string

definition generateId :: "env \<Rightarrow> nat \<Rightarrow> string" where
  "generateId e k = ids e k"

text \<open>\<open>hashPassword\<close>: the SHA-256 digest of the password followed by the salt, each
  byte written as two lower-case hexadecimal digits. The digest function is the host's
  (\<open>crypto.subtle.digest\<close> after \<open>TextEncoder.encode\<close>) and is a parameter.\<close>

type_synonym digest = "string \<Rightarrow> 8 word list"

definition hex_digit :: "nat \<Rightarrow> char" where
  "hex_digit n = ''0123456789abcdef'' ! (n mod 16)"

definition hex_byte :: "8 word \<Rightarrow> string" where
  "hex_byte b = [hex_digit (unat b div 16), hex_digit (unat b mod 16)]"

definition hashPassword :: "digest \<Rightarrow> string \<Rightarrow> string" where
  "hashPassword sha256 password = concat (map hex_byte (sha256 (password @ ''smarty_salt'')))"

text \<open>\<open>isValidEmail\<close>: \<open>/^[^\s@]+@[^\s@]+\.[^\s@]+$/\<close>.\<close>

definition not_space_at :: "char \<Rightarrow> bool" where
  "not_space_at c = (\<not> is_space c \<and> c \<noteq> CHR ''@'')"

definition emailRegex :: regex where
  "emailRegex =
     Cat (Rep not_space_at 1 None)
       (Cat (lit CHR ''@'')
         (Cat (Rep not_space_at 1 None)
           (Cat (lit CHR ''.'') (Rep not_space_at 1 None))))"

definition isValidEmail :: "string \<Rightarrow> bool" where
  "isValidEmail email = test_anchored emailRegex email"

definition isValidPassword :: "string \<Rightarrow> bool" where
  "isValidPassword password = (length password \<ge> 6)"

text \<open>\<open>Array.prototype.findIndex\<close>, with \<open>None\<close> for \<open>-1\<close>.\<close>

fun findIndex :: "('a \<Rightarrow> bool) \<Rightarrow> 'a list \<Rightarrow> nat option" where
  "findIndex P [] = None"
| "findIndex P (x # xs) =
     (if P x then Some 0 else map_option Suc (findIndex P xs))"

text \<open>The decimal rendering of a number in a template string.\<close>

fun show_nat :: "nat \<Rightarrow> string" where
  "show_nat n =
     (if n < 10 then [char_of (48 + n)]
      else show_nat (n div 10) @ [char_of (48 + n mod 10)])"

definition show_int :: "int \<Rightarrow> string" where
  "show_int i = (if i < 0 then CHR ''-'' # show_nat (nat (- i)) else show_nat (nat i))"

definition make_token :: "env \<Rightarrow> string \<Rightarrow> string" where
  "make_token e uid = ''token_'' @ uid @ ''_'' @ show_int (now e) @ ''_'' @ random36 e"

definition sevenDays :: int where
  "sevenDays = 7 * 24 * 60 * 60 * 1000"

text \<open>The result of \<open>signUp\<close> and \<open>signIn\<close>: \<open>{ user, error, token? }\<close>.\<close>

record authResult =
  res_user :: "user option"
  res_error :: "string option"
  res_token :: "string option"

definition auth_failure :: "string \<Rightarrow> authResult" where
  "auth_failure msg = \<lparr>res_user = None, res_error = Some msg, res_token = None\<rparr>"

definition same_email :: "string \<Rightarrow> user \<Rightarrow> bool" where
  "same_email email u = (toLowerCase (user_email u) = toLowerCase email)"

definition signUp ::
  "digest \<Rightarrow> env \<Rightarrow> string \<Rightarrow> string \<Rightarrow> string \<Rightarrow> service \<Rightarrow> authResult \<times> service" where
  "signUp sha256 e email password name s =
     (if email = [] \<or> password = [] \<or> name = [] then
        (auth_failure ''All fields are required'', s)
      else if \<not> isValidEmail email then
        (auth_failure ''Please enter a valid email address'', s)
      else if \<not> isValidPassword password then
        (auth_failure ''Password must be at least 6 characters long'', s)
      else if length (trim name) < 2 then
        (auth_failure ''Name must be at least 2 characters long'', s)
      else
        (case find (same_email email) (users (local s)) of
           Some existingUser \<Rightarrow>
             (auth_failure ''An account with this email already exists'', s)
         | None \<Rightarrow>
             (let hashedPassword = hashPassword sha256 password;
                  newUser = \<lparr>user_id = generateId e 0,
                             user_email = toLowerCase email,
                             user_name = trim name,
                             user_avatar = None,
                             user_plan = Free,
                             user_createdAt = now e,
                             user_updatedAt = now e\<rparr>;
                  userCredentials' = \<lparr>cred_userId = user_id newUser,
                                      cred_email = toLowerCase email,
                                      cred_passwordHash = hashedPassword,
                                      cred_createdAt = now e\<rparr>;
                  token = make_token e (user_id newUser);
                  st = local s;
                  st' = st\<lparr>users := users st @ [newUser],
                           userCredentials := userCredentials st @ [userCredentials'],
                           stored_currentUser := Some newUser,
                           authToken := Some token,
                           tokenExpiry := Some (now e + sevenDays)\<rparr>
              in (\<lparr>res_user = Some newUser, res_error = None, res_token = Some token\<rparr>,
                  s\<lparr>currentUser := Some newUser, local := st'\<rparr>))))"

text \<open>
  \<open>signIn\<close>. The user found is an element of the array \<open>users\<close>, so the assignment to
  \<open>user.updatedAt\<close> changes the array in place, at the index where \<open>find\<close> found it;
  the array is written back only when \<open>findIndex\<close> by id finds an index.
\<close>

definition signIn ::
  "digest \<Rightarrow> env \<Rightarrow> string \<Rightarrow> string \<Rightarrow> service \<Rightarrow> authResult \<times> service" where
  "signIn sha256 e email password s =
     (if email = [] \<or> password = [] then
        (auth_failure ''Email and password are required'', s)
      else if \<not> isValidEmail email then
        (auth_failure ''Please enter a valid email address'', s)
      else
        (case findIndex (same_email email) (users (local s)) of
           None \<Rightarrow> (auth_failure ''Invalid email or password'', s)
         | Some j \<Rightarrow>
             (let user = users (local s) ! j in
              case find (\<lambda>cred. cred_userId cred = user_id user) (userCredentials (local s)) of
                None \<Rightarrow> (auth_failure ''Account not found. Please sign up first.'', s)
              | Some userCredential \<Rightarrow>
                  if hashPassword sha256 password \<noteq> cred_passwordHash userCredential then
                    (auth_failure ''Invalid email or password'', s)
                  else
                    (let token = make_token e (user_id user);
                         user' = user\<lparr>user_updatedAt := now e\<rparr>;
                         users' = (users (local s))[j := user'];
                         st = local s;
                         st1 = (case findIndex (\<lambda>u. user_id u = user_id user') users' of
                                  None \<Rightarrow> st
                                | Some userIndex \<Rightarrow>
                                    st\<lparr>users := users'[userIndex := user']\<rparr>);
                         st2 = st1\<lparr>stored_currentUser := Some user',
                                    authToken := Some token,
                                    tokenExpiry := Some (now e + sevenDays)\<rparr>
                     in (\<lparr>res_user = Some user', res_error = None, res_token = Some token\<rparr>,
                         s\<lparr>currentUser := Some user', local := st2\<rparr>)))))"

definition signOut :: "service \<Rightarrow> string option \<times> service" where
  "signOut s =
     (None,
      s\<lparr>currentUser := None,
        local := (local s)\<lparr>stored_currentUser := None, authToken := None,
                            tokenExpiry := None\<rparr>\<rparr>)"

text \<open>
  \<open>getCurrentUser\<close>. The storage is read only when no user is held in memory; there the
  three session keys must all be truthy (a user object, a non-empty token, a non-zero
  expiry) for the stored session to be looked at.
\<close>

definition getCurrentUser :: "env \<Rightarrow> service \<Rightarrow> user option \<times> service" where
  "getCurrentUser e s =
     (case currentUser s of
        Some u \<Rightarrow> (Some u, s)
      | None \<Rightarrow>
          (case (stored_currentUser (local s), authToken (local s), tokenExpiry (local s)) of
             (Some u, Some tok, Some expiry) \<Rightarrow>
               if tok \<noteq> [] \<and> expiry \<noteq> 0 then
                 (if now e > expiry then (None, snd (signOut s))
                  else (Some u, s\<lparr>currentUser := Some u\<rparr>))
               else (None, s)
           | _ \<Rightarrow> (None, s)))"

text \<open>The constructor's \<open>initialize\<close>: the stored user, when there is one, becomes the
  user held in memory.\<close>

definition initialize :: "service \<Rightarrow> service" where
  "initialize s =
     (case stored_currentUser (local s) of
        Some u \<Rightarrow> s\<lparr>currentUser := Some u, isInitialized := True\<rparr>
      | None \<Rightarrow> s\<lparr>isInitialized := True\<rparr>)"

text \<open>
  The operations on the derived collections. An operation that throws
  \<open>new Error(msg)\<close> returns \<open>Inl msg\<close>. The argument \<open>k\<close> says how many identifiers the
  current dispatch has drawn before the call.
\<close>

text \<open>\<open>xs.slice(0, limit)\<close> for an integral \<open>limit\<close>: a negative one counts from the end.\<close>

definition slice0 :: "'a list \<Rightarrow> int \<Rightarrow> 'a list" where
  "slice0 xs limit =
     (if limit < 0 then take (nat (int (length xs) + limit)) xs else take (nat limit) xs)"

definition saveContentSummary ::
  "env \<Rightarrow> nat \<Rightarrow> contentSummary \<Rightarrow> service \<Rightarrow> string + service" where
  "saveContentSummary e k summary s =
     (if currentUser s = None then Inl ''User not authenticated''
      else
        (let summaries = contentSummaries (local s);
             newSummary = summary\<lparr>sum_id := generateId e k, sum_createdAt := now e\<rparr>
         in Inr (s\<lparr>local := (local s)\<lparr>contentSummaries := newSummary # summaries\<rparr>\<rparr>)))"

definition getUserSummaryHistory :: "int \<Rightarrow> service \<Rightarrow> contentSummary list" where
  "getUserSummaryHistory limit s =
     (if currentUser s = None then [] else slice0 (contentSummaries (local s)) limit)"

definition saveLeads :: "env \<Rightarrow> nat \<Rightarrow> lead list \<Rightarrow> service \<Rightarrow> string + service" where
  "saveLeads e k ls s =
     (if currentUser s = None then Inl ''User not authenticated''
      else
        (let existingLeads = leads (local s);
             newLeads = map (\<lambda>(i, l). l\<lparr>lead_id := generateId e (k + i),
                                          lead_extractedAt := now e\<rparr>)
                          (enumerate 0 ls)
         in Inr (s\<lparr>local := (local s)\<lparr>leads := newLeads @ existingLeads\<rparr>\<rparr>)))"

definition getLeads :: "int \<Rightarrow> service \<Rightarrow> lead list" where
  "getLeads limit s =
     (if currentUser s = None then [] else slice0 (leads (local s)) limit)"

definition savePriceMonitor ::
  "env \<Rightarrow> nat \<Rightarrow> priceMonitoringItem \<Rightarrow> service \<Rightarrow> string + service" where
  "savePriceMonitor e k item s =
     (if currentUser s = None then Inl ''User not authenticated''
      else
        (let monitors = priceMonitors (local s);
             newMonitor = item\<lparr>pm_id := generateId e k\<rparr>
         in Inr (s\<lparr>local := (local s)\<lparr>priceMonitors := newMonitor # monitors\<rparr>\<rparr>)))"

definition getPriceMonitors :: "service \<Rightarrow> priceMonitoringItem list" where
  "getPriceMonitors s = (if currentUser s = None then [] else priceMonitors (local s))"

definition logUserActivity :: "env \<Rightarrow> nat \<Rightarrow> string \<Rightarrow> details \<Rightarrow> service \<Rightarrow> service" where
  "logUserActivity e k action ds s =
     (case currentUser s of
        None \<Rightarrow> s
      | Some u \<Rightarrow>
          (let activity = \<lparr>act_id = generateId e k,
                           act_userId = user_id u,
                           act_action = action,
                           act_details = ds,
                           act_timestamp = now e\<rparr>;
               activities = activity # userActivities (local s);
               activities' = (if length activities > 100 then take 100 activities
                              else activities)
           in s\<lparr>local := (local s)\<lparr>userActivities := activities'\<rparr>\<rparr>))"

definition getUserHistory :: "service \<Rightarrow> userActivity list" where
  "getUserHistory s =
     (if currentUser s = None then [] else take 20 (userActivities (local s)))"

record usage =
  summariesUsed :: nat
  leadExtractionsUsed :: nat
  priceMonitorsActive :: nat
  automationsUsed :: nat
  formTemplatesUsed :: nat
  dataExportsUsed :: nat
  resetDate :: date

definition getUserUsage :: "env \<Rightarrow> string \<Rightarrow> service \<Rightarrow> usage" where
  "getUserUsage e userId s =
     (let st = local s in
      \<lparr>summariesUsed = length (contentSummaries st),
       leadExtractionsUsed = length (leads st),
       priceMonitorsActive = length (filter pm_alertsEnabled (priceMonitors st)),
       automationsUsed =
         length (filter (\<lambda>a. act_action a = ''automation_executed'') (userActivities st)),
       formTemplatesUsed =
         length (filter (\<lambda>a. act_action a = ''form_filled'') (userActivities st)),
       dataExportsUsed =
         length (filter (\<lambda>a. act_action a = ''data_exported'') (userActivities st)),
       resetDate = now e\<rparr>)"

section \<open>The action dispatcher (src/background/background.ts)\<close>

text \<open>The action names that \<open>handleMessage\<close> has a case for.\<close>

definition protocol_actions :: "string list" where
  "protocol_actions =
     [''ping'', ''get_user'', ''sign_in'', ''sign_up'', ''sign_out'', ''save_summary'',
      ''get_summaries'', ''save_leads'', ''get_leads'', ''save_price_monitor'',
      ''get_price_monitors'', ''get_user_stats'', ''log_activity'', ''get_user_history'',
      ''clear_all_data'']"

text \<open>Any other action name: a string that is none of those, such as the
  \<open>process_summary\<close> that the content script sends.\<close>

typedef other_action = "{a :: string. a \<notin> set protocol_actions}"
  morphisms action_name Abs_other_action
proof
  show "''process_summary'' \<in> {a :: string. a \<notin> set protocol_actions}"
    by (simp add: protocol_actions_def)
qed

text \<open>
  A message is an action name with its data. The messages of the protocol are modelled
  with the fields each action reads; \<open>Other a\<close> is a message whose action name is not
  one of the protocol's, so that it reaches the \<open>default\<close> case of the \<open>switch\<close>.
  The \<open>limit\<close> of the two list queries is \<open>data?.limit\<close>, absent or an integer.
\<close>

datatype message =
    Ping
  | Get_user
  | Sign_in string string
  | Sign_up string string string
  | Sign_out
  | Save_summary contentSummary
  | Get_summaries "int option"
  | Save_leads "lead list" string
  | Get_leads "int option"
  | Save_price_monitor priceMonitoringItem
  | Get_price_monitors
  | Get_user_stats
  | Log_activity string details
  | Get_user_history
  | Clear_all_data
  | Other other_action

definition action :: "message \<Rightarrow> string" where
  "action m =
     (case m of
        Ping \<Rightarrow> ''ping''
      | Get_user \<Rightarrow> ''get_user''
      | Sign_in _ _ \<Rightarrow> ''sign_in''
      | Sign_up _ _ _ \<Rightarrow> ''sign_up''
      | Sign_out \<Rightarrow> ''sign_out''
      | Save_summary _ \<Rightarrow> ''save_summary''
      | Get_summaries _ \<Rightarrow> ''get_summaries''
      | Save_leads _ _ \<Rightarrow> ''save_leads''
      | Get_leads _ \<Rightarrow> ''get_leads''
      | Save_price_monitor _ \<Rightarrow> ''save_price_monitor''
      | Get_price_monitors \<Rightarrow> ''get_price_monitors''
      | Get_user_stats \<Rightarrow> ''get_user_stats''
      | Log_activity _ _ \<Rightarrow> ''log_activity''
      | Get_user_history \<Rightarrow> ''get_user_history''
      | Clear_all_data \<Rightarrow> ''clear_all_data''
      | Other a \<Rightarrow> action_name a)"

text \<open>The \<open>data\<close> of a response, by what the action puts there.\<close>

datatype payload =
    Text string
  | User "user option"
  | Summaries "contentSummary list"
  | Leads "lead list"
  | Monitors "priceMonitoringItem list"
  | Usage usage
  | History "userActivity list"

record response =
  success :: bool
  data :: "payload option"
  error :: "string option"

definition ok :: "payload option \<Rightarrow> response" where
  "ok d = \<lparr>success = True, data = d, error = None\<rparr>"

definition failed :: "string \<Rightarrow> response" where
  "failed msg = \<lparr>success = False, data = None, error = Some msg\<rparr>"

text \<open>\<open>!x\<close> and \<open>x || undefined\<close> for an error that is \<open>null\<close> or a string.\<close>

definition falsy :: "string option \<Rightarrow> bool" where
  "falsy x = (case x of None \<Rightarrow> True | Some m \<Rightarrow> m = [])"

definition or_undefined :: "string option \<Rightarrow> string option" where
  "or_undefined x = (if falsy x then None else x)"

text \<open>\<open>data?.limit || d\<close>: an absent limit and the limit 0 both give the default.\<close>

definition limit_or :: "int option \<Rightarrow> int \<Rightarrow> int" where
  "limit_or l d = (case l of None \<Rightarrow> d | Some n \<Rightarrow> if n = 0 then d else n)"

definition empty_storage :: storage where
  "empty_storage =
     \<lparr>users = [], userCredentials = [], contentSummaries = [], leads = [],
      priceMonitors = [], userActivities = [], stored_currentUser = None,
      authToken = None, tokenExpiry = None\<rparr>"

text \<open>
  The \<open>get_user\<close> case first waits 100 ms, "to ensure the storage service is
  initialized": a constructor's \<open>initialize\<close> that is still pending when the message
  arrives has run by the time \<open>getCurrentUser\<close> is called.
\<close>

definition after_wait :: "service \<Rightarrow> service" where
  "after_wait s = (if isInitialized s then s else initialize s)"

text \<open>
  \<open>handleMessage\<close>. An exception thrown inside the \<open>switch\<close> is caught and becomes the
  failure envelope with the exception's message; the state is then the one reached when
  it was thrown.
\<close>

definition handleMessage ::
  "digest \<Rightarrow> env \<Rightarrow> message \<Rightarrow> service \<Rightarrow> response \<times> service" where
  "handleMessage sha256 e m s =
     (case m of
        Ping \<Rightarrow> (ok (Some (Text ''pong'')), s)
      | Get_user \<Rightarrow>
          (let (user, s') = getCurrentUser e (after_wait s)
           in (ok (Some (User user)), s'))
      | Sign_in email password \<Rightarrow>
          (let (signInResult, s') = signIn sha256 e email password s
           in (\<lparr>success = falsy (res_error signInResult),
                data = Some (User (res_user signInResult)),
                error = or_undefined (res_error signInResult)\<rparr>, s'))
      | Sign_up signUpEmail signUpPassword name \<Rightarrow>
          (let (signUpResult, s') = signUp sha256 e signUpEmail signUpPassword name s
           in (\<lparr>success = falsy (res_error signUpResult),
                data = Some (User (res_user signUpResult)),
                error = or_undefined (res_error signUpResult)\<rparr>, s'))
      | Sign_out \<Rightarrow>
          (let (signOutError, s') = signOut s
           in (\<lparr>success = falsy signOutError, data = None,
                error = or_undefined signOutError\<rparr>, s'))
      | Save_summary summary \<Rightarrow>
          (case saveContentSummary e 0 summary s of
             Inl msg \<Rightarrow> (failed msg, s)
           | Inr s1 \<Rightarrow>
               (ok None,
                logUserActivity e 1 ''content_summarized''
                  [(''url'', DStr (sum_url summary)), (''title'', DStr (sum_title summary))]
                  s1))
      | Get_summaries limit \<Rightarrow>
          (ok (Some (Summaries (getUserSummaryHistory (limit_or limit 20) s))), s)
      | Save_leads ls source \<Rightarrow>
          (case saveLeads e 0 ls s of
             Inl msg \<Rightarrow> (failed msg, s)
           | Inr s1 \<Rightarrow>
               (ok None,
                logUserActivity e (length ls) ''leads_extracted''
                  [(''count'', DNum (int (length ls))), (''source'', DStr source)]
                  s1))
      | Get_leads limit \<Rightarrow>
          (ok (Some (Leads (getLeads (limit_or limit 50) s))), s)
      | Save_price_monitor item \<Rightarrow>
          (case savePriceMonitor e 0 item s of
             Inl msg \<Rightarrow> (failed msg, s)
           | Inr s1 \<Rightarrow>
               (ok None,
                logUserActivity e 1 ''price_monitor_created''
                  [(''url'', DStr (pm_url item)),
                   (''productName'', DStr (pm_productName item))]
                  s1))
      | Get_price_monitors \<Rightarrow> (ok (Some (Monitors (getPriceMonitors s))), s)
      | Get_user_stats \<Rightarrow>
          (case getCurrentUser e s of
             (None, s') \<Rightarrow> (failed ''User not authenticated'', s')
           | (Some u, s') \<Rightarrow> (ok (Some (Usage (getUserUsage e (user_id u) s'))), s'))
      | Log_activity a ds \<Rightarrow> (ok None, logUserActivity e 0 a ds s)
      | Get_user_history \<Rightarrow> (ok (Some (History (getUserHistory s))), s)
      | Clear_all_data \<Rightarrow>
          (ok (Some (Text ''All data cleared successfully'')), s\<lparr>local := empty_storage\<rparr>)
      | Other a \<Rightarrow> (failed ''Unknown action'', s))"

section \<open>The content script\<close>

text \<open>
  What the content script reads of a page: the address (\<open>window.location.href\<close>), the
  title, the text of the body (\<open>document.body.textContent || ''\<close>) and, for a selector,
  the texts of the elements it selects, in document order: \<open>document.querySelector\<close>
  gives the first of them and \<open>querySelectorAll\<close> all of them. Selectors are taken to be
  well formed, so that a query does not throw.
\<close>

record page =
  href :: string
  title :: string
  body_text :: string
  query :: "string \<Rightarrow> string list"

text \<open>The envelope a content-script action returns: \<open>{success: true, data}\<close> or
  \<open>{success: false, error}\<close>.\<close>

datatype 'a envelope = Success 'a | Failure string

text \<open>The loop \<open>for (const sel of selectors) { el = querySelector(sel); if (el) { ...;
  break } }\<close>: the text of the first element found, trying the selectors in order.\<close>

fun first_match :: "page \<Rightarrow> string list \<Rightarrow> string option" where
  "first_match p [] = None"
| "first_match p (sel # sels) =
     (case query p sel of [] \<Rightarrow> first_match p sels | el # _ \<Rightarrow> Some el)"

text \<open>\<open>s.replace(/P+/g, r)\<close> for a character class \<open>P\<close>: every maximal run of
  characters of the class becomes the one character \<open>r\<close>.\<close>

function squeeze :: "(char \<Rightarrow> bool) \<Rightarrow> char \<Rightarrow> string \<Rightarrow> string" where
  "squeeze P r [] = []"
| "squeeze P r (c # cs) =
     (if P c then r # squeeze P r (dropWhile P cs) else c # squeeze P r cs)"
  by pat_completeness auto
termination
  by (relation "measure (\<lambda>(P, r, s). length s)")
     (auto simp: length_dropWhile_le less_Suc_eq_le)

subsection \<open>Extract content\<close>

definition contentSelectors :: "string list" where
  \<open>contentSelectors =
     [''main'', ''article'', ''[role="main"]'', ''.content'', ''#content'',
      ''.post-content'', ''.entry-content'', ''.article-content'']\<close>

record pageContent =
  pc_title :: string
  pc_url :: string
  pc_content :: string
  pc_wordCount :: nat
  pc_extractedAt :: date

definition extractPageContent :: "date \<Rightarrow> page \<Rightarrow> pageContent envelope" where
  "extractPageContent t p =
     (let content0 = (case first_match p contentSelectors of None \<Rightarrow> [] | Some el \<Rightarrow> el);
          content1 = (if trim content0 = [] then body_text p else content0);
          content = take 10000
                      (trim (squeeze (\<lambda>c. c = CHR 0x0A) (CHR 0x0A)
                               (squeeze is_space CHR '' '' content1)))
      in Success \<lparr>pc_title = title p,
                  pc_url = href p,
                  pc_content = content,
                  pc_wordCount = length (split_on CHR '' '' content),
                  pc_extractedAt = t\<rparr>)"

subsection \<open>Extract leads\<close>

text \<open>\<open>/[a-zA-Z0-9._%+-]+@[a-zA-Z0-9.-]+\.[a-zA-Z]{2,}/g\<close>\<close>

definition leadEmailRegex :: regex where
  "leadEmailRegex =
     Cat (Rep (\<lambda>c. is_alnum c \<or> one_of ''._%+-'' c) 1 None)
       (Cat (lit CHR ''@'')
         (Cat (Rep (\<lambda>c. is_alnum c \<or> one_of ''.-'' c) 1 None)
           (Cat (lit CHR ''.'') (Rep is_alpha 2 None))))"

text \<open>\<open>/(?:\+?1[-. ]?)?\(?([0-9]{3})\)?[-. ]?([0-9]{3})[-. ]?([0-9]{4})/g\<close>\<close>

definition leadPhoneRegex :: regex where
  "leadPhoneRegex =
     Cat (Opt (Cat (Opt (lit CHR ''+'')) (Cat (lit CHR ''1'') (Opt (Chr (one_of ''-. ''))))))
       (Cat (Opt (lit CHR ''(''))
         (Cat (Rep is_digit 3 (Some 3))
           (Cat (Opt (lit CHR '')''))
             (Cat (Opt (Chr (one_of ''-. '')))
               (Cat (Rep is_digit 3 (Some 3))
                 (Cat (Opt (Chr (one_of ''-. '')))
                   (Rep is_digit 4 (Some 4))))))))"

text \<open>\<open>[...new Set(xs)]\<close>: the elements of \<open>xs\<close> in the order of their first
  occurrences, each once.\<close>

fun unique_from :: "'a list \<Rightarrow> 'a list \<Rightarrow> 'a list" where
  "unique_from seen [] = []"
| "unique_from seen (x # xs) =
     (if x \<in> set seen then unique_from seen xs else x # unique_from (seen @ [x]) xs)"

definition unique :: "'a list \<Rightarrow> 'a list" where
  "unique xs = unique_from [] xs"

text \<open>A lead as the content script builds it: an email or a phone, and no id yet.\<close>

record extractedLead =
  el_email :: "string option"
  el_phone :: "string option"
  el_source :: string
  el_extractedAt :: date
  el_verified :: bool

record leadsData =
  ld_leads :: "extractedLead list"
  ld_count :: nat
  ld_source :: string

definition extractLeads :: "date \<Rightarrow> page \<Rightarrow> leadsData envelope" where
  "extractLeads t p =
     (let emailMatches = match_g leadEmailRegex (body_text p);
          phoneMatches = match_g leadPhoneRegex (body_text p);
          uniqueEmails = unique emailMatches;
          uniquePhones = unique phoneMatches;
          ls = map (\<lambda>email. \<lparr>el_email = Some email, el_phone = None, el_source = href p,
                               el_extractedAt = t, el_verified = False\<rparr>) uniqueEmails
             @ map (\<lambda>phone. \<lparr>el_email = None, el_phone = Some phone, el_source = href p,
                               el_extractedAt = t, el_verified = False\<rparr>) uniquePhones
      in Success \<lparr>ld_leads = ls, ld_count = length ls, ld_source = href p\<rparr>)"

subsection \<open>Monitor price\<close>

text \<open>The selectors probed: the caller's, when it is given and not empty
  (\<open>filter(Boolean)\<close>), then the fixed ones.\<close>

definition priceSelectors :: "string option \<Rightarrow> string list" where
  "priceSelectors selector =
     map the (filter (\<lambda>x. case x of None \<Rightarrow> False | Some sel \<Rightarrow> sel \<noteq> [])
       [selector, Some ''.price'', Some ''.price-current'', Some ''.current-price'',
        Some ''[data-price]'', Some ''.product-price'', Some ''.sale-price'',
        Some ''.offer-price''])"

text \<open>\<open>/[\d,.]+(\d{2})/g\<close>\<close>

definition priceRegex :: regex where
  "priceRegex = Cat (Rep (\<lambda>c. is_digit c \<or> one_of '',.'' c) 1 None) (Rep is_digit 2 (Some 2))"

record priceData =
  pd_url :: string
  pd_productName :: string
  pd_currentPrice :: number
  pd_currency :: string
  pd_selector :: "string option"
  pd_lastChecked :: date
  pd_priceHistory :: "(number \<times> date) list"

definition monitorPrice :: "date \<Rightarrow> string option \<Rightarrow> page \<Rightarrow> priceData envelope" where
  "monitorPrice t selector p =
     (case first_match p (priceSelectors selector) of
        None \<Rightarrow> Failure ''No price found on this page''
      | Some priceText \<Rightarrow>
          if priceText = [] then Failure ''No price found on this page''
          else
            (let priceMatch = match_g priceRegex priceText;
                 price = (case priceMatch of
                            [] \<Rightarrow> Num 0
                          | m # _ \<Rightarrow> parseFloat (filter (\<lambda>c. c \<noteq> CHR '','') m))
             in Success \<lparr>pd_url = href p,
                         pd_productName = title p,
                         pd_currentPrice = price,
                         pd_currency = ''USD'',
                         pd_selector = find (\<lambda>s. query p s \<noteq> []) (priceSelectors selector),
                         pd_lastChecked = t,
                         pd_priceHistory = [(price, t)]\<rparr>))"

subsection \<open>The page-type classifier\<close>

definition detectPageType :: "page \<Rightarrow> string" where
  "detectPageType p =
     (let url = toLowerCase (href p);
          title' = toLowerCase (title p);
          content = toLowerCase (body_text p)
      in if str_includes url ''linkedin.com'' \<or> str_includes url ''twitter.com''
            \<or> str_includes url ''facebook.com'' then ''social-media''
         else if str_includes url ''amazon.com'' \<or> str_includes url ''ebay.com''
            \<or> str_includes content ''add to cart'' then ''ecommerce''
         else if str_includes url ''indeed.com'' \<or> str_includes url ''linkedin.com/jobs''
            \<or> str_includes title' ''job'' then ''job-board''
         else if query p ''article, .article, .post, .blog-post'' \<noteq> [] then ''article''
         else if query p ''form'' \<noteq> [] then ''form-page''
         else ''general'')"

section \<open>Sequences of calls and example states\<close>

text \<open>A sequence of \<open>logUserActivity\<close> calls, each with the clock and identifiers of its
  moment, its action and its details.\<close>

fun log_calls :: "(env \<times> nat \<times> string \<times> details) list \<Rightarrow> service \<Rightarrow> service" where
  "log_calls [] s = s"
| "log_calls ((e, k, a, ds) # calls) s = log_calls calls (logUserActivity e k a ds s)"

text \<open>The entry that \<open>logUserActivity\<close> builds for the user \<open>u\<close>.\<close>

definition new_activity :: "env \<Rightarrow> nat \<Rightarrow> user \<Rightarrow> string \<Rightarrow> details \<Rightarrow> userActivity" where
  "new_activity e k u a ds =
     \<lparr>act_id = generateId e k, act_userId = user_id u, act_action = a,
      act_details = ds, act_timestamp = now e\<rparr>"

text \<open>Concrete values on which the theorems below are instantiated.\<close>

definition clock :: "int \<Rightarrow> env" where
  "clock t = \<lparr>now = t, ids = (\<lambda>k. ''id'' @ show_nat k), random36 = ''0.r''\<rparr>"

definition ada :: user where
  "ada = \<lparr>user_id = ''u1'', user_email = ''ada@example.com'', user_name = ''Ada'',
          user_avatar = None, user_plan = Free, user_createdAt = 0, user_updatedAt = 0\<rparr>"

definition signed_out :: service where
  "signed_out = \<lparr>currentUser = None, isInitialized = True, local = empty_storage\<rparr>"

definition signed_in :: service where
  "signed_in = \<lparr>currentUser = Some ada, isInitialized = True, local = empty_storage\<rparr>"

definition two_visits :: "(env \<times> nat \<times> string \<times> details) list" where
  "two_visits = [(clock 1, 0, ''page_visited'', []), (clock 2, 0, ''page_visited'', [])]"

text \<open>A stand-in for the digest: the bytes of its input. It is injective, so two
  passwords have the same hash under it only when they are equal.\<close>

definition toy_digest :: digest where
  "toy_digest s = map (\<lambda>c. of_nat (code c)) s"

text \<open>A storage holding a session that expired at time 1000, and a service just
  constructed over it: no user in memory yet, \<open>initialize\<close> still pending.\<close>

definition expired_storage :: storage where
  "expired_storage =
     empty_storage\<lparr>users := [ada], stored_currentUser := Some ada,
                   authToken := Some ''token_u1_0_0.r'', tokenExpiry := Some 1000\<rparr>"

definition cold_start :: service where
  "cold_start = \<lparr>currentUser = None, isInitialized = False, local = expired_storage\<rparr>"

text \<open>A summary and a price monitor to save.\<close>

definition a_summary :: contentSummary where
  "a_summary = \<lparr>sum_id = [], sum_url = ''https://example.com/post'', sum_title = ''A post'',
                sum_summary = ''Short.'', sum_keyPoints = [], sum_sentiment = None,
                sum_readingTime = None, sum_createdAt = 0\<rparr>"

definition a_monitor :: priceMonitoringItem where
  "a_monitor = \<lparr>pm_id = [], pm_url = ''https://example.com/item'', pm_productName = ''Item'',
                pm_currentPrice = Num 5, pm_targetPrice = None, pm_currency = ''USD'',
                pm_selector = ''.price'', pm_lastChecked = 0, pm_priceHistory = [],
                pm_alertsEnabled = False\<rparr>"

section \<open>The page-type rules, as the specification words them\<close>

text \<open>
  The specification resolves the page type by an ordered list of rules, the first rule
  that matches giving the type and \<open>general\<close> standing for no match. The five rules,
  with the conditions the classifier tests, and the resolution by first match:
\<close>

definition socialMediaDomain :: "page \<Rightarrow> bool" where
  "socialMediaDomain p =
     (str_includes (toLowerCase (href p)) ''linkedin.com''
      \<or> str_includes (toLowerCase (href p)) ''twitter.com''
      \<or> str_includes (toLowerCase (href p)) ''facebook.com'')"

definition ecommerceMatch :: "page \<Rightarrow> bool" where
  "ecommerceMatch p =
     (str_includes (toLowerCase (href p)) ''amazon.com''
      \<or> str_includes (toLowerCase (href p)) ''ebay.com''
      \<or> str_includes (toLowerCase (body_text p)) ''add to cart'')"

definition jobBoardMatch :: "page \<Rightarrow> bool" where
  "jobBoardMatch p =
     (str_includes (toLowerCase (href p)) ''indeed.com''
      \<or> str_includes (toLowerCase (href p)) ''linkedin.com/jobs''
      \<or> str_includes (toLowerCase (title p)) ''job'')"

definition hasArticleContainer :: "page \<Rightarrow> bool" where
  "hasArticleContainer p = (query p ''article, .article, .post, .blog-post'' \<noteq> [])"

definition hasFormElement :: "page \<Rightarrow> bool" where
  "hasFormElement p = (query p ''form'' \<noteq> [])"

definition pageTypeRules :: "((page \<Rightarrow> bool) \<times> string) list" where
  "pageTypeRules =
     [(socialMediaDomain, ''social-media''), (ecommerceMatch, ''ecommerce''),
      (jobBoardMatch, ''job-board''), (hasArticleContainer, ''article''),
      (hasFormElement, ''form-page'')]"

fun first_rule :: "((page \<Rightarrow> bool) \<times> string) list \<Rightarrow> page \<Rightarrow> string" where
  "first_rule [] p = ''general''"
| "first_rule ((r, l) # rs) p = (if r p then l else first_rule rs p)"

text \<open>A page whose address is a social-media domain and a job-board path, whose title
  holds "job" and which has a form.\<close>

definition linkedin_jobs :: page where
  "linkedin_jobs =
     \<lparr>href = ''https://www.LinkedIn.com/jobs/view/1'', title = ''Job: engineer'',
      body_text = ''Apply now'', query = (\<lambda>sel. if sel = ''form'' then [''Apply''] else [])\<rparr>"

section \<open>The extraction results, as the specification words them\<close>

text \<open>
  The text that extract content works on: that of the first element found by the
  ordered selector list, or the body's when the list finds no element or finds one whose
  text is empty once trimmed.
\<close>

definition source_text :: "page \<Rightarrow> string" where
  "source_text p =
     (case find (\<lambda>sel. query p sel \<noteq> []) contentSelectors of
        None \<Rightarrow> body_text p
      | Some sel \<Rightarrow>
          (case query p sel of
             [] \<Rightarrow> body_text p
           | el # _ \<Rightarrow> if trim el = [] then body_text p else el))"

text \<open>White space is collapsed in a string when its only white-space character is the
  space and no two spaces are adjacent.\<close>

fun single_spaced :: "string \<Rightarrow> bool" where
  "single_spaced [] = True"
| "single_spaced [c] = (is_space c \<longrightarrow> c = CHR '' '')"
| "single_spaced (c # d # cs) =
     ((is_space c \<longrightarrow> c = CHR '' '') \<and> \<not> (c = CHR '' '' \<and> d = CHR '' '')
      \<and> single_spaced (d # cs))"

text \<open>A page whose \<open>main\<close> element is blank and whose \<open>article\<close> element is not.\<close>

definition blog_page :: page where
  "blog_page =
     \<lparr>href = ''https://example.com/blog/1'', title = ''A  post'',
      body_text = ''menu  Hello,   world footer'',
      query = (\<lambda>sel. if sel = ''main'' then [''   '']
                      else if sel = ''article'' then [''  Hello,   world  '']
                      else [])\<rparr>"

text \<open>The lead record emitted for an email match and for a phone match.\<close>

definition email_lead :: "date \<Rightarrow> page \<Rightarrow> string \<Rightarrow> extractedLead" where
  "email_lead t p email =
     \<lparr>el_email = Some email, el_phone = None, el_source = href p,
      el_extractedAt = t, el_verified = False\<rparr>"

definition phone_lead :: "date \<Rightarrow> page \<Rightarrow> string \<Rightarrow> extractedLead" where
  "phone_lead t p phone =
     \<lparr>el_email = None, el_phone = Some phone, el_source = href p,
      el_extractedAt = t, el_verified = False\<rparr>"

text \<open>A page whose text holds the same email twice, and a phone number.\<close>

definition contact_page :: page where
  "contact_page =
     \<lparr>href = ''https://example.com/contact'', title = ''Contact'',
      body_text = ''Write to a@b.com or a@b.com, call 555-123-4567.'',
      query = (\<lambda>sel. [])\<rparr>"

section \<open>Example pages for the price monitor\<close>

text \<open>A page whose \<open>.price\<close> element holds no number, one whose \<open>.price\<close> element
  holds dots before the digits, and a page on which no selector finds anything.\<close>

definition quote_page :: page where
  "quote_page =
     \<lparr>href = ''https://shop.example.com/item'', title = ''Item'', body_text = ''Item'',
      query = (\<lambda>sel. if sel = ''.price'' then [''Call for price''] else [])\<rparr>"

definition dots_page :: page where
  "dots_page =
     \<lparr>href = ''https://shop.example.com/item'', title = ''Item'', body_text = ''Item'',
      query = (\<lambda>sel. if sel = ''.price'' then [''..12''] else [])\<rparr>"

definition bare_page :: page where
  "bare_page =
     \<lparr>href = ''https://example.com/'', title = ''Home'', body_text = ''Welcome'',
      query = (\<lambda>sel. [])\<rparr>"

section \<open>Accounts: what sign-up creates and what sign-in answers\<close>

text \<open>The user and the credential that a successful \<open>signUp\<close> stores.\<close>

definition new_user :: "env \<Rightarrow> string \<Rightarrow> string \<Rightarrow> user" where
  "new_user e email name =
     \<lparr>user_id = generateId e 0, user_email = toLowerCase email, user_name = trim name,
      user_avatar = None, user_plan = Free, user_createdAt = now e, user_updatedAt = now e\<rparr>"

definition new_credential :: "digest \<Rightarrow> env \<Rightarrow> string \<Rightarrow> string \<Rightarrow> credential" where
  "new_credential sha256 e email password =
     \<lparr>cred_userId = generateId e 0, cred_email = toLowerCase email,
      cred_passwordHash = hashPassword sha256 password, cred_createdAt = now e\<rparr>"

text \<open>The error of a \<open>signIn\<close> that gets as far as comparing the password hashes and
  finds them different, or is stopped before by the validation of its inputs.\<close>

definition signIn_error :: "string \<Rightarrow> string \<Rightarrow> string" where
  "signIn_error email password =
     (if email = [] \<or> password = [] then ''Email and password are required''
      else if \<not> isValidEmail email then ''Please enter a valid email address''
      else ''Invalid email or password'')"

text \<open>A store in which one account is registered, with the password "secret1".\<close>

definition ada_credential :: credential where
  "ada_credential =
     \<lparr>cred_userId = ''u1'', cred_email = ''ada@example.com'',
      cred_passwordHash = hashPassword toy_digest ''secret1'', cred_createdAt = 0\<rparr>"

definition registered :: service where
  "registered =
     \<lparr>currentUser = None, isInitialized = True,
      local = empty_storage\<lparr>users := [ada], userCredentials := [ada_credential]\<rparr>\<rparr>"

section \<open>Properties\<close>

subsection \<open>The activity log is bounded\<close>

lemma logUserActivity_length:
  "length (userActivities (local s)) \<le> 100 \<Longrightarrow>
   length (userActivities (local (logUserActivity e k a ds s))) \<le> 100"
  by (simp add: logUserActivity_def Let_def split: option.splits)

lemma log_calls_length:
  "length (userActivities (local s)) \<le> 100 \<Longrightarrow>
   length (userActivities (local (log_calls calls s))) \<le> 100"
proof (induction calls arbitrary: s)
  case Nil
  then show ?case by simp
next
  case (Cons c calls)
  obtain e k a ds where c: "c = (e, k, a, ds)" by (cases c) auto
  from Cons.prems have "length (userActivities (local (logUserActivity e k a ds s))) \<le> 100"
    by (rule logUserActivity_length)
  then show ?case unfolding c log_calls.simps by (rule Cons.IH)
qed

lemma logUserActivity_front:
  "currentUser s = Some u \<Longrightarrow>
   userActivities (local (logUserActivity e k a ds s))
     = take 100 (new_activity e k u a ds # userActivities (local s))"
  by (simp add: logUserActivity_def new_activity_def Let_def)

text \<open>
  C6. From a stored activity log of at most 100 entries, after any finite sequence of
  \<open>logUserActivity\<close> calls the stored log still has at most 100 entries; and a further
  call made for a signed-in user leaves exactly the first 100 entries of the new entry
  put in front of the old log, so the new entry is first and what lay beyond position
  100, the oldest, is dropped.
\<close>

theorem activity_log_bounded:
  assumes "length (userActivities (local s)) \<le> 100"
  shows "length (userActivities (local (log_calls calls s))) \<le> 100
       \<and> (\<forall>u e k a ds. currentUser (log_calls calls s) = Some u \<longrightarrow>
            userActivities (local (logUserActivity e k a ds (log_calls calls s)))
              = take 100 (new_activity e k u a ds # userActivities (local (log_calls calls s))))"
  using assms by (simp add: log_calls_length logUserActivity_front)

theorem activity_log_bounded_witness:
  "length (userActivities (local signed_in)) \<le> 100
   \<and> length (userActivities (local (log_calls two_visits signed_in))) \<le> 100
   \<and> userActivities (local (logUserActivity (clock 3) 0 ''ping'' [] (log_calls two_visits signed_in)))
       = take 100 (new_activity (clock 3) 0 ada ''ping'' []
                    # userActivities (local (log_calls two_visits signed_in)))"
proof -
  have h: "length (userActivities (local signed_in)) \<le> 100"
    by (simp add: signed_in_def empty_storage_def)
  have c: "currentUser (log_calls two_visits signed_in) = Some ada"
    by (simp add: two_visits_def signed_in_def logUserActivity_def Let_def)
  from activity_log_bounded [OF h, of two_visits] c h
  show ?thesis by blast
qed

subsection \<open>Reading the current user\<close>

text \<open>The path of \<open>getCurrentUser\<close> that reads the storage checks the expiry and signs
  out; the path that finds a user in memory does not read the storage.\<close>

lemma getCurrentUser_expired:
  assumes "currentUser s = None" and "stored_currentUser (local s) = Some u"
      and "authToken (local s) = Some tok" and "tok \<noteq> []"
      and "tokenExpiry (local s) = Some x" and "x \<noteq> 0" and "x < now e"
  shows "getCurrentUser e s = (None, snd (signOut s))"
  using assms by (simp add: getCurrentUser_def)

lemma getCurrentUser_memoized:
  "currentUser s = Some m \<Longrightarrow> getCurrentUser e s = (Some m, s)"
  by (simp add: getCurrentUser_def)

text \<open>\<open>initialize\<close> puts the stored user in memory whatever the stored expiry.\<close>

lemma initialize_memoizes:
  "stored_currentUser (local s) = Some u \<Longrightarrow>
   initialize s = s\<lparr>currentUser := Some u, isInitialized := True\<rparr>"
  by (simp add: initialize_def)

text \<open>
  C2. The code does not do what the claim says. A service is constructed over a storage
  whose session expired at 1000, and \<open>get_user\<close> arrives when the clock reads 2000. The
  constructor's \<open>initialize\<close> has then put the stored user in memory without looking
  at the expiry, \<open>getCurrentUser\<close> returns the user it finds in memory, and the answer
  is \<open>success: true\<close> with the expired session's user; the stored session keys are
  left as they were. A second \<open>get_user\<close> gets the same answer.
\<close>

theorem get_user_returns_expired_session:
  "tokenExpiry (local cold_start) = Some 1000 \<and> 1000 < now (clock 2000)
   \<and> handleMessage toy_digest (clock 2000) Get_user cold_start
       = (\<lparr>success = True, data = Some (User (Some ada)), error = None\<rparr>,
          \<lparr>currentUser = Some ada, isInitialized = True, local = expired_storage\<rparr>)
   \<and> handleMessage toy_digest (clock 3000) Get_user
         \<lparr>currentUser = Some ada, isInitialized = True, local = expired_storage\<rparr>
       = (\<lparr>success = True, data = Some (User (Some ada)), error = None\<rparr>,
          \<lparr>currentUser = Some ada, isInitialized = True, local = expired_storage\<rparr>)"
  by (simp add: cold_start_def expired_storage_def clock_def handleMessage_def ok_def
      after_wait_def initialize_def getCurrentUser_def)

subsection \<open>Actions without a session\<close>

text \<open>
  C5, as the claim states it, fails for \<open>log_activity\<close>: with no user held by the
  service the dispatcher answers it with \<open>{success: true}\<close>, since
  \<open>logUserActivity\<close> returns without throwing.
\<close>

theorem log_activity_without_session_counterexample:
  "currentUser signed_out = None
   \<and> fst (handleMessage toy_digest (clock 0) (Log_activity ''page_visited'' []) signed_out)
       = \<lparr>success = True, data = None, error = None\<rparr>"
  by (simp add: signed_out_def handleMessage_def ok_def logUserActivity_def)

text \<open>
  C5, amended. With no user held by the service, \<open>saveContentSummary\<close>, \<open>saveLeads\<close>
  and \<open>savePriceMonitor\<close> themselves throw "User not authenticated", and the dispatcher
  turns that into the envelope \<open>{success: false, error: "User not authenticated"}\<close> for
  \<open>save_summary\<close>, \<open>save_leads\<close> and \<open>save_price_monitor\<close>, the state unchanged;
  \<open>logUserActivity\<close> returns without a change, and the dispatcher answers
  \<open>log_activity\<close> with \<open>{success: true}\<close>.
\<close>

theorem unauthenticated_mutations:
  assumes "currentUser s = None"
  shows "saveContentSummary e k summary s = Inl ''User not authenticated''
       \<and> saveLeads e k ls s = Inl ''User not authenticated''
       \<and> savePriceMonitor e k item s = Inl ''User not authenticated''
       \<and> handleMessage sha256 e (Save_summary summary) s
           = (\<lparr>success = False, data = None, error = Some ''User not authenticated''\<rparr>, s)
       \<and> handleMessage sha256 e (Save_leads ls source) s
           = (\<lparr>success = False, data = None, error = Some ''User not authenticated''\<rparr>, s)
       \<and> handleMessage sha256 e (Save_price_monitor item) s
           = (\<lparr>success = False, data = None, error = Some ''User not authenticated''\<rparr>, s)
       \<and> logUserActivity e k a ds s = s
       \<and> handleMessage sha256 e (Log_activity a ds) s
           = (\<lparr>success = True, data = None, error = None\<rparr>, s)"
  using assms
  by (simp add: handleMessage_def ok_def failed_def saveContentSummary_def saveLeads_def
      savePriceMonitor_def logUserActivity_def)

theorem unauthenticated_mutations_witness:
  "currentUser signed_out = None
   \<and> handleMessage toy_digest (clock 0) (Save_summary a_summary) signed_out
       = (\<lparr>success = False, data = None, error = Some ''User not authenticated''\<rparr>, signed_out)
   \<and> handleMessage toy_digest (clock 0) (Save_leads [] ''https://example.com'') signed_out
       = (\<lparr>success = False, data = None, error = Some ''User not authenticated''\<rparr>, signed_out)
   \<and> handleMessage toy_digest (clock 0) (Save_price_monitor a_monitor) signed_out
       = (\<lparr>success = False, data = None, error = Some ''User not authenticated''\<rparr>, signed_out)
   \<and> handleMessage toy_digest (clock 0) (Log_activity ''page_visited'' []) signed_out
       = (\<lparr>success = True, data = None, error = None\<rparr>, signed_out)"
proof -
  have h: "currentUser signed_out = None" by (simp add: signed_out_def)
  from unauthenticated_mutations [OF h, of "clock 0" 0 a_summary "[]" a_monitor toy_digest
      "''https://example.com''" "''page_visited''" "[]"] h
  show ?thesis by simp
qed

text \<open>
  C10. With no user held by the service, each of \<open>get_summaries\<close>, \<open>get_leads\<close>,
  \<open>get_price_monitors\<close> and \<open>get_user_history\<close> is answered with a successful envelope
  whose data is the empty list, whatever the storage holds, and the state is unchanged.
\<close>

theorem unauthenticated_reads_are_empty:
  assumes "currentUser s = None"
  shows "handleMessage sha256 e (Get_summaries l) s
           = (\<lparr>success = True, data = Some (Summaries []), error = None\<rparr>, s)
       \<and> handleMessage sha256 e (Get_leads l) s
           = (\<lparr>success = True, data = Some (Leads []), error = None\<rparr>, s)
       \<and> handleMessage sha256 e Get_price_monitors s
           = (\<lparr>success = True, data = Some (Monitors []), error = None\<rparr>, s)
       \<and> handleMessage sha256 e Get_user_history s
           = (\<lparr>success = True, data = Some (History []), error = None\<rparr>, s)"
  using assms
  by (simp add: handleMessage_def ok_def getUserSummaryHistory_def getLeads_def
      getPriceMonitors_def getUserHistory_def)

theorem unauthenticated_reads_are_empty_witness:
  "currentUser signed_out = None
   \<and> handleMessage toy_digest (clock 0) (Get_summaries (Some 5)) signed_out
       = (\<lparr>success = True, data = Some (Summaries []), error = None\<rparr>, signed_out)
   \<and> handleMessage toy_digest (clock 0) (Get_leads (Some 5)) signed_out
       = (\<lparr>success = True, data = Some (Leads []), error = None\<rparr>, signed_out)
   \<and> handleMessage toy_digest (clock 0) Get_price_monitors signed_out
       = (\<lparr>success = True, data = Some (Monitors []), error = None\<rparr>, signed_out)
   \<and> handleMessage toy_digest (clock 0) Get_user_history signed_out
       = (\<lparr>success = True, data = Some (History []), error = None\<rparr>, signed_out)"
proof -
  have h: "currentUser signed_out = None" by (simp add: signed_out_def)
  from unauthenticated_reads_are_empty [OF h, of toy_digest "clock 0" "Some 5"] h
  show ?thesis by simp
qed

subsection \<open>The page type is the first matching rule's\<close>

lemma first_rule_append:
  "\<forall>x\<in>set pre. \<not> fst x p \<Longrightarrow> first_rule (pre @ rs) p = first_rule rs p"
  by (induction pre) auto

lemma detectPageType_eq: "detectPageType p = first_rule pageTypeRules p"
  by (simp add: detectPageType_def pageTypeRules_def socialMediaDomain_def ecommerceMatch_def
      jobBoardMatch_def hasArticleContainer_def hasFormElement_def Let_def)

text \<open>
  C7. For every page, \<open>detectPageType\<close> is the resolution of the ordered rule list
  (social-media domain, ecommerce domain or keyword, job-board domain or keyword,
  article-like container, form element) by first match, with \<open>general\<close> when no rule
  matches: wherever a rule matches and none before it does, the page type is that
  rule's, whatever the rules after it say.
\<close>

theorem detectPageType_first_match:
  "detectPageType p = first_rule pageTypeRules p
   \<and> (\<forall>pre r l post. pageTypeRules = pre @ (r, l) # post \<and> (\<forall>x\<in>set pre. \<not> fst x p) \<and> r p
         \<longrightarrow> detectPageType p = l)
   \<and> ((\<forall>x\<in>set pageTypeRules. \<not> fst x p) \<longrightarrow> detectPageType p = ''general'')"
proof (intro conjI allI impI)
  show "detectPageType p = first_rule pageTypeRules p" by (rule detectPageType_eq)
next
  fix pre r l post
  assume a: "pageTypeRules = pre @ (r, l) # post \<and> (\<forall>x\<in>set pre. \<not> fst x p) \<and> r p"
  then have "first_rule (pre @ (r, l) # post) p = first_rule ((r, l) # post) p"
    by (intro first_rule_append) simp
  moreover have "first_rule ((r, l) # post) p = l" using a by simp
  moreover have "detectPageType p = first_rule (pre @ (r, l) # post) p"
    using a detectPageType_eq [of p] by simp
  ultimately show "detectPageType p = l" by simp
next
  assume "\<forall>x\<in>set pageTypeRules. \<not> fst x p"
  then have "first_rule (pageTypeRules @ []) p = first_rule [] p"
    by (rule first_rule_append)
  then show "detectPageType p = ''general''" by (simp add: detectPageType_eq)
qed

theorem detectPageType_first_match_witness:
  "socialMediaDomain linkedin_jobs \<and> jobBoardMatch linkedin_jobs \<and> hasFormElement linkedin_jobs
   \<and> detectPageType linkedin_jobs = ''social-media''"
proof -
  have s: "socialMediaDomain linkedin_jobs"
    by code_simp
  have j: "jobBoardMatch linkedin_jobs"
    by code_simp
  have f: "hasFormElement linkedin_jobs"
    by (simp add: hasFormElement_def linkedin_jobs_def)
  have "pageTypeRules = [] @ (socialMediaDomain, ''social-media'') # tl pageTypeRules
        \<and> (\<forall>x\<in>set []. \<not> fst x linkedin_jobs) \<and> socialMediaDomain linkedin_jobs"
    using s by (simp add: pageTypeRules_def)
  with detectPageType_first_match [of linkedin_jobs]
  have "detectPageType linkedin_jobs = ''social-media''" by blast
  with s j f show ?thesis by simp
qed

subsection \<open>Extract content\<close>

lemma first_match_find:
  "first_match p sels =
     (case find (\<lambda>sel. query p sel \<noteq> []) sels of
        None \<Rightarrow> None
      | Some sel \<Rightarrow> (case query p sel of [] \<Rightarrow> None | el # _ \<Rightarrow> Some el))"
  by (induction sels) (auto split: list.splits)

lemma squeeze_id: "\<forall>c\<in>set s. \<not> P c \<Longrightarrow> squeeze P r s = s"
  by (induction s) auto

lemma squeeze_set:
  "c \<in> set (squeeze P r s) \<Longrightarrow> c = r \<or> \<not> P c"
  by (induction P r s rule: squeeze.induct) (auto split: if_splits dest: set_dropWhileD)

lemma squeeze_single_spaced: "single_spaced (squeeze is_space CHR '' '' s)"
proof (induction "is_space" "CHR '' ''" s rule: squeeze.induct)
  case 1
  then show ?case by simp
next
  case (2 c cs)
  show ?case
  proof (cases "is_space c")
    case True
    let ?rest = "squeeze is_space CHR '' '' (dropWhile is_space cs)"
    from True 2 have ih: "single_spaced ?rest" by simp
    show ?thesis
    proof (cases ?rest)
      case Nil
      with True show ?thesis by simp
    next
      case (Cons d ds)
      have "d \<noteq> CHR '' ''"
      proof
        assume d: "d = CHR '' ''"
        from Cons obtain x xs where x: "dropWhile is_space cs = x # xs"
          by (cases "dropWhile is_space cs") auto
        then have nx: "\<not> is_space x" using hd_dropWhile [of is_space cs] by auto
        with x Cons have "d = x" by simp
        with d nx show False by (simp add: is_space_def code_def)
      qed
      with True Cons ih show ?thesis by simp
    qed
  next
    case False
    let ?rest = "squeeze is_space CHR '' '' cs"
    from False 2 have ih: "single_spaced ?rest" by simp
    from False have nsp: "c \<noteq> CHR '' ''" by (auto simp: is_space_def code_def)
    show ?thesis
    proof (cases ?rest)
      case Nil
      with False show ?thesis by simp
    next
      case (Cons d ds)
      with False ih nsp show ?thesis by simp
    qed
  qed
qed

lemma single_spaced_appendD: "single_spaced (a @ b) \<Longrightarrow> single_spaced a \<and> single_spaced b"
proof (induction a rule: single_spaced.induct)
  case 1
  then show ?case by simp
next
  case (2 c)
  then show ?case by (cases b) auto
next
  case (3 c d cs)
  then show ?case by auto
qed

lemma rev_split: "xs = rev (dropWhile P (rev xs)) @ rev (takeWhile P (rev xs))"
proof -
  have "rev (takeWhile P (rev xs) @ dropWhile P (rev xs)) = rev (rev xs)"
    by (simp only: takeWhile_dropWhile_id)
  then show ?thesis by (simp only: rev_append rev_rev_ident)
qed

lemma trim_infix: "\<exists>a c. s = a @ trim s @ c"
proof -
  let ?t = "dropWhile is_space s"
  have "s = takeWhile is_space s @ ?t" by simp
  also have "?t = trim s @ rev (takeWhile is_space (rev ?t))"
    unfolding trim_def by (rule rev_split)
  finally show ?thesis by blast
qed

lemma single_spaced_trim: "single_spaced s \<Longrightarrow> single_spaced (trim s)"
proof -
  assume s: "single_spaced s"
  obtain a c where "s = a @ trim s @ c" using trim_infix by blast
  with s have "single_spaced (a @ trim s @ c)" by simp
  then show ?thesis using single_spaced_appendD by blast
qed

lemma single_spaced_take: "single_spaced s \<Longrightarrow> single_spaced (take n s)"
  using single_spaced_appendD [of "take n s" "drop n s"] by simp

lemma length_split_on: "length (split_on sep s) = Suc (length (filter (\<lambda>c. c = sep) s))"
  by (induction s) (auto split: list.splits)

lemma extract_source: 
  "(let content0 = (case first_match p contentSelectors of None \<Rightarrow> [] | Some el \<Rightarrow> el)
    in if trim content0 = [] then body_text p else content0) = source_text p"
  by (auto simp: source_text_def first_match_find trim_def Let_def split: option.splits list.splits)

text \<open>
  C8. For every page and time, extract content succeeds, and its data carry the page's
  title and address, the time of the extraction, and a content that is the first 10000
  characters of the trimmed, white-space-collapsed text of the first element found by the
  ordered selector list (the body's text when none is found or the one found is blank):
  at most 10000 characters, with no white space but single spaces. The word count is
  the number of pieces of the content between spaces, one more than its spaces.
\<close>

theorem extractPageContent_result:
  "\<exists>d. extractPageContent t p = Success d
     \<and> pc_title d = title p \<and> pc_url d = href p \<and> pc_extractedAt d = t
     \<and> pc_content d = take 10000 (trim (squeeze is_space CHR '' '' (source_text p)))
     \<and> length (pc_content d) \<le> 10000
     \<and> single_spaced (pc_content d)
     \<and> pc_wordCount d = Suc (length (filter (\<lambda>c. c = CHR '' '') (pc_content d)))"
proof -
  let ?sq = "squeeze is_space CHR '' '' (source_text p)"
  let ?content = "take 10000 (trim ?sq)"
  have nl: "squeeze (\<lambda>c. c = CHR 0x0A) (CHR 0x0A) ?sq = ?sq"
  proof (rule squeeze_id, rule ballI)
    fix c assume "c \<in> set ?sq"
    then have "c = CHR '' '' \<or> \<not> is_space c" by (rule squeeze_set)
    then show "\<not> c = CHR 0x0A" by (auto simp: is_space_def code_def)
  qed
  have e: "extractPageContent t p =
        Success \<lparr>pc_title = title p, pc_url = href p, pc_content = ?content,
                 pc_wordCount = length (split_on CHR '' '' ?content), pc_extractedAt = t\<rparr>"
    using extract_source [of p] by (simp add: extractPageContent_def Let_def nl)
  have ss: "single_spaced ?content"
    by (intro single_spaced_take single_spaced_trim squeeze_single_spaced)
  show ?thesis
    unfolding e using ss by (simp add: length_split_on)
qed

theorem extractPageContent_result_witness:
  "extractPageContent 7 blog_page
     = Success \<lparr>pc_title = ''A  post'', pc_url = ''https://example.com/blog/1'',
                pc_content = ''menu Hello, world footer'', pc_wordCount = 4,
                pc_extractedAt = 7\<rparr>
   \<and> source_text blog_page = ''menu  Hello,   world footer''"
proof -
  have s: "source_text blog_page = ''menu  Hello,   world footer''" by code_simp
  have q: "trim (squeeze is_space CHR '' '' ''menu  Hello,   world footer'')
             = ''menu Hello, world footer''" by code_simp
  from extractPageContent_result [of 7 blog_page]
  obtain d where d: "extractPageContent 7 blog_page = Success d"
    "pc_title d = title blog_page" "pc_url d = href blog_page" "pc_extractedAt d = 7"
    "pc_content d = take 10000 (trim (squeeze is_space CHR '' '' (source_text blog_page)))"
    "pc_wordCount d = Suc (length (filter (\<lambda>c. c = CHR '' '') (pc_content d)))"
    by (elim exE conjE)
  from d(5) have c: "pc_content d = ''menu Hello, world footer''"
    unfolding s q by simp
  with d(6) have w: "pc_wordCount d = 4" by simp
  have "d = \<lparr>pc_title = ''A  post'', pc_url = ''https://example.com/blog/1'',
             pc_content = ''menu Hello, world footer'', pc_wordCount = 4,
             pc_extractedAt = 7\<rparr>"
    using d(2,3,4) c w by (cases d) (simp add: blog_page_def)
  with d(1) s show ?thesis by simp
qed

subsection \<open>Extract leads\<close>

lemma unique_from_set: "set (unique_from seen xs) = set xs - set seen"
  by (induction xs arbitrary: seen) auto

lemma unique_from_distinct: "distinct (unique_from seen xs)"
  by (induction xs arbitrary: seen) (auto simp: unique_from_set)

lemma unique_set: "set (unique xs) = set xs"
  by (simp add: unique_def unique_from_set)

lemma unique_distinct: "distinct (unique xs)"
  by (simp add: unique_def unique_from_distinct)

lemma distinct_count: "distinct xs \<Longrightarrow> length (filter (\<lambda>y. y = x) xs) = (if x \<in> set xs then 1 else 0)"
  by (induction xs) auto

lemma unique_count: "length (filter (\<lambda>y. y = x) (unique xs)) = (if x \<in> set xs then 1 else 0)"
  using distinct_count [OF unique_distinct, of x xs] by (simp add: unique_set)

lemma extractLeads_eq:
  "extractLeads t p =
     Success \<lparr>ld_leads = map (email_lead t p) (unique (match_g leadEmailRegex (body_text p)))
                        @ map (phone_lead t p) (unique (match_g leadPhoneRegex (body_text p))),
              ld_count = length (unique (match_g leadEmailRegex (body_text p)))
                       + length (unique (match_g leadPhoneRegex (body_text p))),
              ld_source = href p\<rparr>"
  by (simp add: extractLeads_def Let_def email_lead_def [abs_def] phone_lead_def [abs_def])

lemma email_count:
  "length (filter (\<lambda>l. el_email l = Some x) (map (email_lead t p) es @ map (phone_lead t p) ps))
     = length (filter (\<lambda>y. y = x) es)"
  by (simp add: filter_map o_def email_lead_def phone_lead_def)

lemma phone_count:
  "length (filter (\<lambda>l. el_phone l = Some x) (map (email_lead t p) es @ map (phone_lead t p) ps))
     = length (filter (\<lambda>y. y = x) ps)"
  by (simp add: filter_map o_def email_lead_def phone_lead_def)

text \<open>
  C9. For every page, extract leads succeeds with one lead per distinct match of the
  email regex, in the order of first occurrence, followed by one lead per distinct match
  of the phone regex: for every string, the number of leads with that email is 1 when
  the string is among the email matches and 0 otherwise, and likewise for phones, so an
  email matched twice yields exactly one lead. Every lead carries the page's address as
  its source and is unverified, and the count is the number of distinct email matches
  plus the number of distinct phone matches.
\<close>

theorem extractLeads_deduplicates:
  "\<exists>d. extractLeads t p = Success d
     \<and> ld_leads d = map (email_lead t p) (unique (match_g leadEmailRegex (body_text p)))
                   @ map (phone_lead t p) (unique (match_g leadPhoneRegex (body_text p)))
     \<and> (\<forall>x. length (filter (\<lambda>l. el_email l = Some x) (ld_leads d))
              = (if x \<in> set (match_g leadEmailRegex (body_text p)) then 1 else 0))
     \<and> (\<forall>x. length (filter (\<lambda>l. el_phone l = Some x) (ld_leads d))
              = (if x \<in> set (match_g leadPhoneRegex (body_text p)) then 1 else 0))
     \<and> (\<forall>l \<in> set (ld_leads d). el_source l = href p \<and> \<not> el_verified l)
     \<and> ld_count d = length (ld_leads d)
     \<and> ld_count d = card (set (match_g leadEmailRegex (body_text p)))
                   + card (set (match_g leadPhoneRegex (body_text p)))
     \<and> ld_source d = href p"
proof -
  let ?es = "match_g leadEmailRegex (body_text p)"
  let ?ps = "match_g leadPhoneRegex (body_text p)"
  let ?ls = "map (email_lead t p) (unique ?es) @ map (phone_lead t p) (unique ?ps)"
  define d where "d = \<lparr>ld_leads = ?ls, ld_count = length (unique ?es) + length (unique ?ps),
                         ld_source = href p\<rparr>"
  have l: "ld_leads d = ?ls"
    and n: "ld_count d = length (unique ?es) + length (unique ?ps)"
    and u: "ld_source d = href p"
    by (simp_all add: d_def)
  have r: "extractLeads t p = Success d"
    unfolding d_def by (rule extractLeads_eq)
  have c: "length (unique ?es) = card (set ?es)" "length (unique ?ps) = card (set ?ps)"
    using distinct_card [OF unique_distinct, of ?es] distinct_card [OF unique_distinct, of ?ps]
    by (simp_all add: unique_set)
  have s: "\<forall>l \<in> set (ld_leads d). el_source l = href p \<and> \<not> el_verified l"
    unfolding l by (auto simp: email_lead_def phone_lead_def)
  have e: "\<forall>x. length (filter (\<lambda>l. el_email l = Some x) (ld_leads d))
                = (if x \<in> set ?es then 1 else 0)"
    unfolding l by (simp only: email_count unique_count) simp
  have f: "\<forall>x. length (filter (\<lambda>l. el_phone l = Some x) (ld_leads d))
                = (if x \<in> set ?ps then 1 else 0)"
    unfolding l by (simp only: phone_count unique_count) simp
  have k: "ld_count d = length (ld_leads d)"
    unfolding l n by simp
  have k': "ld_count d = card (set ?es) + card (set ?ps)"
    unfolding n c by (rule refl)
  show ?thesis
    by (rule exI [of _ d]) (intro conjI r l e f s k k' u)
qed

theorem extractLeads_deduplicates_witness:
  "match_g leadEmailRegex (body_text contact_page) = [''a@b.com'', ''a@b.com'']
   \<and> (\<exists>d. extractLeads 3 contact_page = Success d
          \<and> length (filter (\<lambda>l. el_email l = Some ''a@b.com'') (ld_leads d)) = 1
          \<and> map el_email (ld_leads d) = [Some ''a@b.com'', None]
          \<and> ld_count d = 2)"
proof -
  have b: "body_text contact_page = ''Write to a@b.com or a@b.com, call 555-123-4567.''"
    by (simp add: contact_page_def)
  have m: "match_g leadEmailRegex (body_text contact_page) = [''a@b.com'', ''a@b.com'']"
    unfolding b by code_simp
  have n: "match_g leadPhoneRegex (body_text contact_page) = [''555-123-4567'']"
    unfolding b by code_simp
  have um: "unique [''a@b.com'', ''a@b.com''] = [''a@b.com'']" by code_simp
  have un: "unique [''555-123-4567''] = [''555-123-4567'']" by code_simp
  from extractLeads_deduplicates [of 3 contact_page]
  obtain d where r: "extractLeads 3 contact_page = Success d"
    and l: "ld_leads d = map (email_lead 3 contact_page) (unique (match_g leadEmailRegex (body_text contact_page)))
                   @ map (phone_lead 3 contact_page) (unique (match_g leadPhoneRegex (body_text contact_page)))"
    and e: "\<forall>x. length (filter (\<lambda>l. el_email l = Some x) (ld_leads d))
              = (if x \<in> set (match_g leadEmailRegex (body_text contact_page)) then 1 else 0)"
    and k: "ld_count d = card (set (match_g leadEmailRegex (body_text contact_page)))
                   + card (set (match_g leadPhoneRegex (body_text contact_page)))"
    by (elim exE conjE)
  from e have e1: "length (filter (\<lambda>l. el_email l = Some ''a@b.com'') (ld_leads d)) = 1"
    unfolding m by simp
  from k have k2: "ld_count d = 2" unfolding m n by simp
  from l have l2: "map el_email (ld_leads d) = [Some ''a@b.com'', None]"
    unfolding m n um un by (simp add: email_lead_def phone_lead_def)
  show ?thesis
    by (intro conjI m exI [of _ d] r e1 l2 k2)
qed

subsection \<open>Monitor price\<close>

lemma first_match_None: "first_match p sels = None \<longleftrightarrow> (\<forall>sel\<in>set sels. query p sel = [])"
  by (induction sels) (auto split: list.splits)

lemma rep_digit_nil:
  "\<forall>c\<in>set s. \<not> is_digit c \<Longrightarrow> rmatch (Rep is_digit 2 (Some 2)) s = []"
  by (cases s) (simp_all add: Let_def)

lemma rmatch_price_nil:
  assumes "\<forall>c\<in>set s. \<not> is_digit c"
  shows "rmatch priceRegex s = []"
proof -
  have "\<forall>c\<in>set (drop k s). \<not> is_digit c" for k
    using assms by (meson in_set_dropD)
  then have "rmatch (Rep is_digit 2 (Some 2)) (drop k s) = []" for k
    by (rule rep_digit_nil)
  then show ?thesis
    by (simp add: priceRegex_def Let_def)
qed

lemma match_g_price_nil:
  "\<forall>c\<in>set s. \<not> is_digit c \<Longrightarrow> match_g priceRegex s = []"
proof (induction s)
  case Nil
  then show ?case by (simp add: rmatch_price_nil)
next
  case (Cons c cs)
  then have "rmatch priceRegex (c # cs) = []" by (intro rmatch_price_nil) 
  with Cons show ?case by simp
qed

text \<open>
  C1, as the claim states it, fails. On a page whose first matching element reads
  "Call for price" the numeric regex finds nothing and \<open>monitorPrice\<close> returns
  \<open>success: true\<close> with the price 0; on one whose element reads "..12" the regex
  matches "..12", which \<open>parseFloat\<close> cannot read, and the price returned is \<open>NaN\<close>.
\<close>

theorem monitorPrice_counterexample:
  "first_match quote_page (priceSelectors None) = Some ''Call for price''
   \<and> monitorPrice 9 None quote_page
       = Success \<lparr>pd_url = ''https://shop.example.com/item'', pd_productName = ''Item'',
                  pd_currentPrice = Num 0, pd_currency = ''USD'', pd_selector = Some ''.price'',
                  pd_lastChecked = 9, pd_priceHistory = [(Num 0, 9)]\<rparr>
   \<and> monitorPrice 9 None dots_page
       = Success \<lparr>pd_url = ''https://shop.example.com/item'', pd_productName = ''Item'',
                  pd_currentPrice = NaN, pd_currency = ''USD'', pd_selector = Some ''.price'',
                  pd_lastChecked = 9, pd_priceHistory = [(NaN, 9)]\<rparr>"
  by code_simp

text \<open>
  C1, amended. \<open>monitorPrice\<close> returns the failure envelope with the error "No price
  found on this page" when no selector of its list (the caller's first, then the fixed
  ones) finds an element, and when the first element found has an empty text. When that
  text is not empty and the numeric regex finds no match in it, as in every text without
  a digit, \<open>monitorPrice\<close> returns \<open>success: true\<close> with the price 0.
\<close>

theorem monitorPrice_outcomes:
  "((\<forall>sel\<in>set (priceSelectors selector). query p sel = [])
       \<longrightarrow> monitorPrice t selector p = Failure ''No price found on this page'')
   \<and> (first_match p (priceSelectors selector) = Some []
       \<longrightarrow> monitorPrice t selector p = Failure ''No price found on this page'')
   \<and> (\<forall>priceText. first_match p (priceSelectors selector) = Some priceText \<and> priceText \<noteq> []
             \<and> match_g priceRegex priceText = []
       \<longrightarrow> monitorPrice t selector p
             = Success \<lparr>pd_url = href p, pd_productName = title p, pd_currentPrice = Num 0,
                        pd_currency = ''USD'',
                        pd_selector = find (\<lambda>s. query p s \<noteq> []) (priceSelectors selector),
                        pd_lastChecked = t, pd_priceHistory = [(Num 0, t)]\<rparr>)
   \<and> (\<forall>priceText. (\<forall>c\<in>set priceText. \<not> is_digit c) \<longrightarrow> match_g priceRegex priceText = [])"
proof (intro conjI allI impI)
  assume "\<forall>sel\<in>set (priceSelectors selector). query p sel = []"
  then have "first_match p (priceSelectors selector) = None"
    by (simp add: first_match_None)
  then show "monitorPrice t selector p = Failure ''No price found on this page''"
    by (simp add: monitorPrice_def)
next
  assume "first_match p (priceSelectors selector) = Some []"
  then show "monitorPrice t selector p = Failure ''No price found on this page''"
    by (simp add: monitorPrice_def)
next
  fix priceText
  assume "first_match p (priceSelectors selector) = Some priceText \<and> priceText \<noteq> []
             \<and> match_g priceRegex priceText = []"
  then show "monitorPrice t selector p
             = Success \<lparr>pd_url = href p, pd_productName = title p, pd_currentPrice = Num 0,
                        pd_currency = ''USD'',
                        pd_selector = find (\<lambda>s. query p s \<noteq> []) (priceSelectors selector),
                        pd_lastChecked = t, pd_priceHistory = [(Num 0, t)]\<rparr>"
    by (simp add: monitorPrice_def Let_def)
next
  fix priceText :: string
  assume "\<forall>c\<in>set priceText. \<not> is_digit c"
  then show "match_g priceRegex priceText = []" by (rule match_g_price_nil)
qed

theorem monitorPrice_outcomes_witness:
  "first_match bare_page (priceSelectors None) = None
   \<and> monitorPrice 9 None bare_page = Failure ''No price found on this page''
   \<and> first_match quote_page (priceSelectors None) = Some ''Call for price''
   \<and> filter is_digit ''Call for price'' = []
   \<and> match_g priceRegex ''Call for price'' = []
   \<and> monitorPrice 9 None quote_page
       = Success \<lparr>pd_url = href quote_page, pd_productName = title quote_page,
                  pd_currentPrice = Num 0, pd_currency = ''USD'',
                  pd_selector = find (\<lambda>s. query quote_page s \<noteq> []) (priceSelectors None),
                  pd_lastChecked = 9, pd_priceHistory = [(Num 0, 9)]\<rparr>"
proof -
  have a: "\<forall>sel\<in>set (priceSelectors None). query bare_page sel = []"
    by (simp add: bare_page_def)
  have b: "first_match quote_page (priceSelectors None) = Some ''Call for price''"
    by code_simp
  have c: "\<forall>c\<in>set ''Call for price''. \<not> is_digit c"
    by (simp add: is_digit_def code_def)
  note th = monitorPrice_outcomes [of None bare_page 9] monitorPrice_outcomes [of None quote_page 9]
  from th(1) a have f: "monitorPrice 9 None bare_page = Failure ''No price found on this page''"
    by blast
  from th(2) c have m: "match_g priceRegex ''Call for price'' = []" by blast
  from th(2) b m have s: "monitorPrice 9 None quote_page
       = Success \<lparr>pd_url = href quote_page, pd_productName = title quote_page,
                  pd_currentPrice = Num 0, pd_currency = ''USD'',
                  pd_selector = find (\<lambda>s. query quote_page s \<noteq> []) (priceSelectors None),
                  pd_lastChecked = 9, pd_priceHistory = [(Num 0, 9)]\<rparr>"
    by blast
  have a': "first_match bare_page (priceSelectors None) = None"
    using a by (simp add: first_match_None)
  have c': "filter is_digit ''Call for price'' = []"
    using c by simp
  show ?thesis by (intro conjI a' f b c' m s)
qed

subsection \<open>Sign-up and sign-in\<close>

lemma code_char_of: "n < 256 \<Longrightarrow> code (char_of n) = n"
  by (simp add: code_def)

lemma lower_char_idem: "lower_char (lower_char c) = lower_char c"
proof (cases "has_lower c")
  case True
  then have "code c + 32 < 256" by (auto simp: has_lower_def is_upper_def)
  then have "code (char_of (code c + 32)) = code c + 32" by (rule code_char_of)
  with True have "\<not> has_lower (char_of (code c + 32))"
    by (auto simp: has_lower_def is_upper_def)
  with True show ?thesis by (simp add: lower_char_def)
next
  case False
  then show ?thesis by (simp add: lower_char_def)
qed

lemma toLowerCase_idem: "toLowerCase (toLowerCase s) = toLowerCase s"
  by (simp add: toLowerCase_def lower_char_idem)

lemma findIndex_append_new:
  "\<forall>u\<in>set us. \<not> P u \<Longrightarrow> P x \<Longrightarrow> findIndex P (us @ [x]) = Some (length us)"
  by (induction us) auto

lemma find_append_new:
  "\<forall>u\<in>set us. \<not> P u \<Longrightarrow> P x \<Longrightarrow> find P (us @ [x]) = Some x"
  by (induction us) auto

lemma find_none: "\<forall>u\<in>set us. \<not> P u \<Longrightarrow> find P us = None"
  by (induction us) auto

lemma find_findIndex:
  "find P xs = Some u \<Longrightarrow> \<exists>j. findIndex P xs = Some j \<and> xs ! j = u"
  by (induction xs) (auto split: if_splits)

lemma isValidEmail_nonempty: "isValidEmail email \<Longrightarrow> email \<noteq> []"
  by (auto simp: isValidEmail_def test_anchored_def emailRegex_def Let_def)

lemma signUp_success:
  assumes "isValidEmail email" and "length password \<ge> 6" and "length (trim name) \<ge> 2"
      and "\<forall>u\<in>set (users (local s)). \<not> same_email email u"
  shows "signUp sha256 e email password name s =
           (\<lparr>res_user = Some (new_user e email name), res_error = None,
             res_token = Some (make_token e (generateId e 0))\<rparr>,
            s\<lparr>currentUser := Some (new_user e email name),
              local := (local s)\<lparr>users := users (local s) @ [new_user e email name],
                 userCredentials := userCredentials (local s)
                                    @ [new_credential sha256 e email password],
                 stored_currentUser := Some (new_user e email name),
                 authToken := Some (make_token e (generateId e 0)),
                 tokenExpiry := Some (now e + sevenDays)\<rparr>\<rparr>)"
proof -
  from assms(1) have e: "email \<noteq> []" by (rule isValidEmail_nonempty)
  from assms(2) have p: "password \<noteq> []" "isValidPassword password"
    by (auto simp: isValidPassword_def)
  from assms(3) have n: "name \<noteq> []" "\<not> length (trim name) < 2"
    by (auto simp: trim_def)
  from assms(4) have f: "find (same_email email) (users (local s)) = None"
    by (rule find_none)
  show ?thesis
    unfolding signUp_def
    by (simp add: e p n f assms(1) Let_def new_user_def new_credential_def)
qed

lemma signIn_success:
  assumes "email \<noteq> []" and "password \<noteq> []" and "isValidEmail email"
      and "findIndex (same_email email) (users (local s)) = Some j"
      and "find (\<lambda>c. cred_userId c = user_id (users (local s) ! j)) (userCredentials (local s))
             = Some c"
      and "hashPassword sha256 password = cred_passwordHash c"
  shows "fst (signIn sha256 e email password s) =
           \<lparr>res_user = Some ((users (local s) ! j)\<lparr>user_updatedAt := now e\<rparr>),
            res_error = None,
            res_token = Some (make_token e (user_id (users (local s) ! j)))\<rparr>"
  unfolding signIn_def
  by (simp add: assms Let_def)

text \<open>
  C3. For every valid email, password of at least 6 characters and name of trimmed
  length at least 2, in a store where no user has that email up to case, \<open>signUp\<close>
  succeeds and returns the new user, and a \<open>signIn\<close> with the same email and password
  in the state it leaves, at any later time, succeeds and returns that user with
  \<open>updatedAt\<close> touched: the same user id. The identifier drawn for the new user is
  taken to be fresh, that is, not the user id of a credential already stored; it comes
  from the clock and the random source.
\<close>

theorem sign_up_then_sign_in:
  assumes "isValidEmail email" and "length password \<ge> 6" and "length (trim name) \<ge> 2"
      and "\<forall>u\<in>set (users (local s)). toLowerCase (user_email u) \<noteq> toLowerCase email"
      and "\<forall>c\<in>set (userCredentials (local s)). cred_userId c \<noteq> generateId e1 0"
  shows "res_error (fst (signUp sha256 e1 email password name s)) = None
       \<and> res_user (fst (signUp sha256 e1 email password name s)) = Some (new_user e1 email name)
       \<and> res_error (fst (signIn sha256 e2 email password
                            (snd (signUp sha256 e1 email password name s)))) = None
       \<and> res_user (fst (signIn sha256 e2 email password
                           (snd (signUp sha256 e1 email password name s))))
           = Some ((new_user e1 email name)\<lparr>user_updatedAt := now e2\<rparr>)
       \<and> map_option user_id
             (res_user (fst (signIn sha256 e2 email password
                               (snd (signUp sha256 e1 email password name s)))))
           = map_option user_id (res_user (fst (signUp sha256 e1 email password name s)))"
proof -
  let ?u = "new_user e1 email name"
  let ?c = "new_credential sha256 e1 email password"
  define s1 where "s1 = snd (signUp sha256 e1 email password name s)"
  from assms(4) have fresh: "\<forall>u\<in>set (users (local s)). \<not> same_email email u"
    by (simp add: same_email_def)
  note up = signUp_success [OF assms(1,2,3) fresh, of sha256 e1]
  have us: "users (local s1) = users (local s) @ [?u]"
    and cs: "userCredentials (local s1) = userCredentials (local s) @ [?c]"
    unfolding s1_def up by simp_all
  from assms(1) have e: "email \<noteq> []" by (rule isValidEmail_nonempty)
  from assms(2) have p: "password \<noteq> []" by auto
  have same: "same_email email ?u"
    by (simp add: same_email_def new_user_def toLowerCase_idem)
  have j: "findIndex (same_email email) (users (local s1)) = Some (length (users (local s)))"
    unfolding us using fresh same by (rule findIndex_append_new)
  have at: "users (local s1) ! length (users (local s)) = ?u"
    unfolding us by simp
  have "cred_userId ?c = user_id ?u" by (simp add: new_credential_def new_user_def)
  moreover from assms(5)
  have "\<forall>c\<in>set (userCredentials (local s)). \<not> cred_userId c = user_id ?u"
    by (simp add: new_user_def)
  ultimately
  have "find (\<lambda>c. cred_userId c = user_id ?u) (userCredentials (local s) @ [?c]) = Some ?c"
    by (intro find_append_new) simp_all
  then have c: "find (\<lambda>c. cred_userId c = user_id (users (local s1) ! length (users (local s))))
                  (userCredentials (local s1)) = Some ?c"
    unfolding at cs .
  have h: "hashPassword sha256 password = cred_passwordHash ?c"
    by (simp add: new_credential_def)
  note inn = signIn_success [OF e p assms(1) j c h, of e2]
  have r1: "res_error (fst (signUp sha256 e1 email password name s)) = None"
    and r2: "res_user (fst (signUp sha256 e1 email password name s)) = Some ?u"
    unfolding up by simp_all
  have r3: "res_error (fst (signIn sha256 e2 email password s1)) = None"
    and r4: "res_user (fst (signIn sha256 e2 email password s1))
               = Some (?u\<lparr>user_updatedAt := now e2\<rparr>)"
    unfolding inn at by simp_all
  have r5: "map_option user_id (res_user (fst (signIn sha256 e2 email password s1)))
              = map_option user_id (res_user (fst (signUp sha256 e1 email password name s)))"
    unfolding r2 r4 by simp
  show ?thesis
    using r1 r2 r3 r4 r5 unfolding s1_def by (intro conjI)
qed

theorem sign_up_then_sign_in_witness:
  "isValidEmail ''Bob@Example.com''
   \<and> map user_email (users (local registered)) = [''ada@example.com'']
   \<and> map cred_userId (userCredentials (local registered)) = [''u1'']
   \<and> generateId (clock 1000) 0 = ''id0''
   \<and> res_error (fst (signUp toy_digest (clock 1000) ''Bob@Example.com'' ''hunter2'' '' Bob ''
                        registered)) = None
   \<and> res_error (fst (signIn toy_digest (clock 2000) ''Bob@Example.com'' ''hunter2''
                        (snd (signUp toy_digest (clock 1000) ''Bob@Example.com'' ''hunter2''
                                '' Bob '' registered)))) = None
   \<and> map_option user_id
         (res_user (fst (signIn toy_digest (clock 2000) ''Bob@Example.com'' ''hunter2''
                           (snd (signUp toy_digest (clock 1000) ''Bob@Example.com'' ''hunter2''
                                   '' Bob '' registered)))))
       = Some ''id0''"
proof -
  have v: "isValidEmail ''Bob@Example.com''" by code_simp
  have p: "length ''hunter2'' \<ge> 6" by simp
  have n: "length (trim '' Bob '') \<ge> 2" by code_simp
  have us: "map user_email (users (local registered)) = [''ada@example.com'']"
    by (simp add: registered_def ada_def)
  have cs: "map cred_userId (userCredentials (local registered)) = [''u1'']"
    by (simp add: registered_def ada_credential_def)
  have g: "generateId (clock 1000) 0 = ''id0''"
    by code_simp
  have lo: "toLowerCase ''ada@example.com'' \<noteq> toLowerCase ''Bob@Example.com''"
    by code_simp
  have u: "\<forall>u\<in>set (users (local registered)).
             toLowerCase (user_email u) \<noteq> toLowerCase ''Bob@Example.com''"
    using lo by (simp add: registered_def ada_def)
  have c: "\<forall>c\<in>set (userCredentials (local registered)).
             cred_userId c \<noteq> generateId (clock 1000) 0"
    unfolding g by (simp add: registered_def ada_credential_def)
  note th = sign_up_then_sign_in [OF v p n u c, of toy_digest "clock 2000"]
  from th have r1: "res_error (fst (signUp toy_digest (clock 1000) ''Bob@Example.com''
                        ''hunter2'' '' Bob '' registered)) = None"
    by (elim conjE)
  from th have r3: "res_error (fst (signIn toy_digest (clock 2000) ''Bob@Example.com'' ''hunter2''
                        (snd (signUp toy_digest (clock 1000) ''Bob@Example.com'' ''hunter2''
                                '' Bob '' registered)))) = None"
    by (elim conjE)
  from th have "map_option user_id
         (res_user (fst (signIn toy_digest (clock 2000) ''Bob@Example.com'' ''hunter2''
                           (snd (signUp toy_digest (clock 1000) ''Bob@Example.com'' ''hunter2''
                                   '' Bob '' registered)))))
       = map_option user_id (Some (new_user (clock 1000) ''Bob@Example.com'' '' Bob ''))"
    by (elim conjE) (simp only:)
  then have r5: "map_option user_id
         (res_user (fst (signIn toy_digest (clock 2000) ''Bob@Example.com'' ''hunter2''
                           (snd (signUp toy_digest (clock 1000) ''Bob@Example.com'' ''hunter2''
                                   '' Bob '' registered)))))
       = Some ''id0''"
    by (simp add: new_user_def g)
  show ?thesis by (intro conjI v us cs g r1 r3 r5)
qed

text \<open>
  C4. When the email is that of a stored user (up to case), whose credential is stored,
  and the salted digest of the password differs from the hash in that credential,
  \<open>signIn\<close> returns no user and a non-empty error and leaves the state as it was, and
  the dispatcher answers \<open>sign_in\<close> with \<open>success: false\<close>, no user and that error;
  the error is "Invalid email or password" whenever the email is well formed and the
  password is not empty, and a validation message otherwise.
\<close>

theorem wrong_password_rejected:
  assumes "find (same_email email) (users (local s)) = Some u"
      and "find (\<lambda>c. cred_userId c = user_id u) (userCredentials (local s)) = Some c"
      and "hashPassword sha256 password \<noteq> cred_passwordHash c"
  shows "signIn sha256 e email password s
           = (\<lparr>res_user = None, res_error = Some (signIn_error email password),
               res_token = None\<rparr>, s)
       \<and> handleMessage sha256 e (Sign_in email password) s
           = (\<lparr>success = False, data = Some (User None),
               error = Some (signIn_error email password)\<rparr>, s)
       \<and> signIn_error email password \<noteq> []
       \<and> (isValidEmail email \<and> password \<noteq> []
            \<longrightarrow> signIn_error email password = ''Invalid email or password'')"
proof -
  from find_findIndex [OF assms(1)]
  obtain j where j: "findIndex (same_email email) (users (local s)) = Some j"
    and at: "users (local s) ! j = u"
    by (elim exE conjE)
  have r: "signIn sha256 e email password s
           = (\<lparr>res_user = None, res_error = Some (signIn_error email password),
               res_token = None\<rparr>, s)"
    unfolding signIn_def
    by (simp add: j at assms(2,3) Let_def auth_failure_def signIn_error_def)
  have ne: "signIn_error email password \<noteq> []"
    by (simp add: signIn_error_def)
  have h: "handleMessage sha256 e (Sign_in email password) s
           = (\<lparr>success = False, data = Some (User None),
               error = Some (signIn_error email password)\<rparr>, s)"
    unfolding handleMessage_def using ne by (simp add: r falsy_def or_undefined_def)
  have v: "isValidEmail email \<and> password \<noteq> []
            \<longrightarrow> signIn_error email password = ''Invalid email or password''"
    using isValidEmail_nonempty [of email] by (auto simp: signIn_error_def)
  show ?thesis by (intro conjI r h ne v)
qed

theorem wrong_password_rejected_witness:
  "find (same_email ''Ada@example.com'') (users (local registered)) = Some ada
   \<and> find (\<lambda>c. cred_userId c = user_id ada) (userCredentials (local registered))
       = Some ada_credential
   \<and> hashPassword toy_digest ''letmein'' \<noteq> cred_passwordHash ada_credential
   \<and> signIn toy_digest (clock 5) ''Ada@example.com'' ''letmein'' registered
       = (\<lparr>res_user = None, res_error = Some ''Invalid email or password'',
           res_token = None\<rparr>, registered)
   \<and> handleMessage toy_digest (clock 5) (Sign_in ''Ada@example.com'' ''letmein'') registered
       = (\<lparr>success = False, data = Some (User None),
           error = Some ''Invalid email or password''\<rparr>, registered)"
proof -
  have lo: "toLowerCase ''ada@example.com'' = toLowerCase ''Ada@example.com''" by code_simp
  have a: "find (same_email ''Ada@example.com'') (users (local registered)) = Some ada"
    using lo by (simp add: registered_def same_email_def ada_def)
  have b: "find (\<lambda>c. cred_userId c = user_id ada) (userCredentials (local registered))
       = Some ada_credential"
    by (simp add: registered_def ada_def ada_credential_def)
  have h1: "hashPassword toy_digest ''letmein'' = ''6c65746d65696e736d617274795f73616c74''"
    by code_simp
  have h2: "hashPassword toy_digest ''secret1'' = ''73656372657431736d617274795f73616c74''"
    by code_simp
  have c: "hashPassword toy_digest ''letmein'' \<noteq> cred_passwordHash ada_credential"
    unfolding ada_credential_def h1 by (simp add: h2)
  have v: "isValidEmail ''Ada@example.com''" by code_simp
  note th = wrong_password_rejected [OF a b c, of "clock 5"]
  from th v have m: "signIn_error ''Ada@example.com'' ''letmein'' = ''Invalid email or password''"
    by (elim conjE) simp
  from th have r: "signIn toy_digest (clock 5) ''Ada@example.com'' ''letmein'' registered
       = (\<lparr>res_user = None, res_error = Some ''Invalid email or password'',
           res_token = None\<rparr>, registered)"
    unfolding m by (elim conjE)
  from th have h: "handleMessage toy_digest (clock 5) (Sign_in ''Ada@example.com'' ''letmein'')
         registered
       = (\<lparr>success = False, data = Some (User None),
           error = Some ''Invalid email or password''\<rparr>, registered)"
    unfolding m by (elim conjE)
  show ?thesis by (intro conjI a b c r h)
qed

end
